theory Spec2Isabelle
  imports Main "HOL-Library.Monad_Syntax"
begin

section \<open>The AI chat plugin of AiKiCad: command pipeline and generator client\<close>

text \<open>
  A shallow embedding of \<^verbatim>\<open>plugins/ai_chat/ai_command_processor.cpp\<close> and
  \<^verbatim>\<open>plugins/ai_chat/ai_service.cpp\<close>.

  A \<^verbatim>\<open>wxString\<close> is modelled as a HOL \<^typ>\<open>string\<close>. Every character test of the
  code is against ASCII characters; the model classifies and lower-cases ASCII only and
  leaves every other character as it is. The translation macro \<^verbatim>\<open>_()\<close> is the
  identity (no catalogue loaded). A \<^verbatim>\<open>long\<close> has 64 bits and an \<^verbatim>\<open>int\<close> 32.

  The network, the JSON library, the library tables and the schematic's reference list
  are parameters of the model; what the code does with their answers is modelled as it
  is written. A function that changes the design takes the schematic and returns the
  new one; a function that can fail returns its error as a value.
\<close>

subsection \<open>wxString operations\<close>

text \<open>\<^verbatim>\<open>wxSafeIsspace\<close>: the C \<^verbatim>\<open>isspace\<close> of the characters below 127.\<close>

definition wxIsspace :: "char \<Rightarrow> bool" where
  "wxIsspace c = (c \<in> set [CHR '' '', CHR 0x09, CHR 0x0A, CHR 0x0B, CHR 0x0C, CHR 0x0D])"

definition wxIsdigit :: "char \<Rightarrow> bool" where
  "wxIsdigit c = (c \<in> set ''0123456789'')"

fun lower_tab :: "(char \<times> char) list \<Rightarrow> char \<Rightarrow> char" where
  "lower_tab [] c = c"
| "lower_tab ((u, l) # t) c = (if c = u then l else lower_tab t c)"

definition wxTolower :: "char \<Rightarrow> char" where
  "wxTolower c =
     lower_tab (zip ''ABCDEFGHIJKLMNOPQRSTUVWXYZ'' ''abcdefghijklmnopqrstuvwxyz'') c"

text \<open>\<^verbatim>\<open>wxString::Lower()\<close>.\<close>

definition Lower :: "string \<Rightarrow> string" where
  "Lower s = map wxTolower s"

text \<open>\<^verbatim>\<open>a.CmpNoCase( b ) == 0\<close>.\<close>

definition CmpNoCase_eq :: "string \<Rightarrow> string \<Rightarrow> bool" where
  "CmpNoCase_eq a b = (Lower a = Lower b)"

text \<open>\<^verbatim>\<open>Trim( false )\<close> strips white space on the left, \<^verbatim>\<open>Trim( true )\<close>
  (also \<^verbatim>\<open>Trim()\<close>) on the right.\<close>

definition Trim_left :: "string \<Rightarrow> string" where
  "Trim_left s = dropWhile wxIsspace s"

definition Trim_right :: "string \<Rightarrow> string" where
  "Trim_right s = rev (dropWhile wxIsspace (rev s))"

text \<open>\<^verbatim>\<open>s.Trim( false ).Trim( true )\<close>.\<close>

definition Trim :: "string \<Rightarrow> string" where
  "Trim s = Trim_right (Trim_left s)"

fun StartsWith :: "string \<Rightarrow> string \<Rightarrow> bool" where
  "StartsWith s [] = True"
| "StartsWith [] (p # ps) = False"
| "StartsWith (c # cs) (p # ps) = (c = p \<and> StartsWith cs ps)"

definition EndsWith :: "string \<Rightarrow> string \<Rightarrow> bool" where
  "EndsWith s p = StartsWith (rev s) (rev p)"

text \<open>\<^verbatim>\<open>s.Contains( p )\<close>: \<^verbatim>\<open>p\<close> occurs in \<^verbatim>\<open>s\<close> as a substring.\<close>

fun Contains :: "string \<Rightarrow> string \<Rightarrow> bool" where
  "Contains [] p = (p = [])"
| "Contains (c # cs) p = (StartsWith (c # cs) p \<or> Contains cs p)"

text \<open>\<^verbatim>\<open>s.Find( p )\<close>: the index of the first occurrence, \<^verbatim>\<open>wxNOT_FOUND\<close> as
  \<^const>\<open>None\<close>.\<close>

fun Find :: "string \<Rightarrow> string \<Rightarrow> nat option" where
  "Find [] p = (if p = [] then Some 0 else None)"
| "Find (c # cs) p =
     (if StartsWith (c # cs) p then Some 0 else map_option Suc (Find cs p))"

text \<open>\<^verbatim>\<open>s.find( ch, start )\<close> and \<^verbatim>\<open>s.Find( ch )\<close> for one character.\<close>

fun find_char_from :: "string \<Rightarrow> char \<Rightarrow> nat \<Rightarrow> nat option" where
  "find_char_from [] ch start = None"
| "find_char_from (c # cs) ch 0 =
     (if c = ch then Some 0 else map_option Suc (find_char_from cs ch 0))"
| "find_char_from (c # cs) ch (Suc n) = map_option Suc (find_char_from cs ch n)"

definition Find_char :: "string \<Rightarrow> char \<Rightarrow> nat option" where
  "Find_char s ch = find_char_from s ch 0"

text \<open>\<^verbatim>\<open>s.Mid( first )\<close> and \<^verbatim>\<open>s.SubString( from, to )\<close>, which is
  \<^verbatim>\<open>Mid( from, to - from + 1 )\<close> in \<^verbatim>\<open>size_t\<close>: the count is \<open>to + 1 - from\<close>
  whenever \<open>from \<le> to + 1\<close>, which holds at both call sites (the closing backtick lies
  behind the opening one).\<close>

definition Mid :: "string \<Rightarrow> nat \<Rightarrow> string" where
  "Mid s first = drop first s"

definition SubString :: "string \<Rightarrow> nat \<Rightarrow> nat \<Rightarrow> string" where
  "SubString s from to = take (to + 1 - from) (drop from s)"

text \<open>\<^verbatim>\<open>s.BeforeFirst( ch )\<close> (the whole string when \<^verbatim>\<open>ch\<close> is absent) and
  \<^verbatim>\<open>s.AfterFirst( ch )\<close> (empty when \<^verbatim>\<open>ch\<close> is absent).\<close>

definition BeforeFirst :: "string \<Rightarrow> char \<Rightarrow> string" where
  "BeforeFirst s ch = takeWhile (\<lambda>c. c \<noteq> ch) s"

definition AfterFirst :: "string \<Rightarrow> char \<Rightarrow> string" where
  "AfterFirst s ch = drop 1 (dropWhile (\<lambda>c. c \<noteq> ch) s)"

subsection \<open>The generator client: construction\<close>

record OLLAMA_AI_SERVICE =
  m_baseUrl :: string
  m_model :: string
  m_availabilityChecked :: bool
  m_isAvailable :: bool

text \<open>The loop of the constructor over the model list: the first model whose name
  contains \<^verbatim>\<open>coder\<close> or \<^verbatim>\<open>code\<close> (\<^verbatim>\<open>foundCodeModel\<close> is \<^const>\<open>Some\<close>).\<close>

fun first_code_model :: "string list \<Rightarrow> string option" where
  "first_code_model [] = None"
| "first_code_model (model # rest) =
     (if Contains model ''coder'' \<or> Contains model ''code'' then Some model
      else first_code_model rest)"

text \<open>
  The constructor. The network is a parameter: \<open>conn1\<close> and \<open>conn2\<close> are the results of
  the two calls of \<^verbatim>\<open>TestConnection()\<close>, \<open>models\<close> is what
  \<^verbatim>\<open>GetAvailableModels()\<close> returns.
\<close>

definition OLLAMA_AI_SERVICE_new :: "string \<Rightarrow> bool \<Rightarrow> string list \<Rightarrow> bool \<Rightarrow> OLLAMA_AI_SERVICE" where
  "OLLAMA_AI_SERVICE_new aBaseUrl conn1 models conn2 =
     (let preferred = ''qwen2.5-coder:32b'';
          selected =
            (if conn1 then
               (case models of
                  [] \<Rightarrow> preferred
                | first # _ \<Rightarrow>
                    (case first_code_model models of
                       Some model \<Rightarrow> model
                     | None \<Rightarrow> first))
             else preferred)
      in \<lparr>m_baseUrl = aBaseUrl, m_model = selected,
          m_availabilityChecked = True, m_isAvailable = conn2\<rparr>)"

subsection \<open>The generator client: requests\<close>

record AI_RESPONSE =
  success :: bool
  message :: string
  error :: string
  isComplete :: bool

text \<open>The default member initialisers of \<^verbatim>\<open>AI_RESPONSE\<close>.\<close>

definition AI_RESPONSE_default :: AI_RESPONSE where
  "AI_RESPONSE_default =
     \<lparr>success = False, message = [], error = [], isComplete = False\<rparr>"

text \<open>
  The HTTP transfer and the JSON library are parameters of the model. A member of a
  JSON object is missing, present with the type the code asks for, or present with
  another type (then \<^verbatim>\<open>get<T>()\<close> throws; the exception's text is kept).
\<close>

datatype 'a json_member = Missing | WrongType string | Value 'a

text \<open>
  One token of the newline-delimited body after \<^verbatim>\<open>Trim()\<close>: empty, not parsable as
  JSON, or a JSON value with its members \<^verbatim>\<open>response\<close> and \<^verbatim>\<open>done\<close> (a JSON value
  that is no object has neither).
\<close>

datatype stream_line =
    EmptyLine
  | InvalidJson
  | JsonLine "string json_member" "bool json_member"

text \<open>The body parsed as one JSON value, with its members \<^verbatim>\<open>response\<close> and
  \<^verbatim>\<open>error\<close>; \<open>Unparsable\<close> carries the text of the parser's exception.\<close>

datatype buffered_json =
    Unparsable string
  | Parsed "string json_member" "string json_member"

text \<open>What \<^verbatim>\<open>curl.Perform()\<close> leaves: an error text, or the body, seen both as its
  line tokens and as one JSON value.\<close>

datatype transfer =
    CurlError string
  | CurlOk "stream_line list" buffered_json

text \<open>
  The \<^verbatim>\<open>while( tokenizer.HasMoreTokens() )\<close> loop of \<^verbatim>\<open>makeApiRequest\<close>. The
  callback acts on a state \<open>'u\<close> of its own (the chat panel). An exception thrown by
  \<^verbatim>\<open>get<std::string>()\<close> or \<^verbatim>\<open>get<bool>()\<close> is caught and the loop continues with
  the next token.
\<close>

fun stream_loop ::
  "stream_line list \<Rightarrow> (string \<Rightarrow> 'u \<Rightarrow> 'u) \<Rightarrow> string \<Rightarrow> 'u \<Rightarrow> string \<times> 'u" where
  "stream_loop [] aStreamCallback completeMessage u = (completeMessage, u)"
| "stream_loop (EmptyLine # rest) aStreamCallback completeMessage u =
     stream_loop rest aStreamCallback completeMessage u"
| "stream_loop (InvalidJson # rest) aStreamCallback completeMessage u =
     stream_loop rest aStreamCallback completeMessage u"
| "stream_loop (JsonLine response done # rest) aStreamCallback completeMessage u =
     (case response of
        WrongType _ \<Rightarrow> stream_loop rest aStreamCallback completeMessage u
      | Missing \<Rightarrow>
          (case done of
             Value True \<Rightarrow> (completeMessage, u)
           | _ \<Rightarrow> stream_loop rest aStreamCallback completeMessage u)
      | Value chunk \<Rightarrow>
          (case done of
             Value True \<Rightarrow> (completeMessage @ chunk, aStreamCallback chunk u)
           | _ \<Rightarrow>
               stream_loop rest aStreamCallback (completeMessage @ chunk)
                 (aStreamCallback chunk u)))"

text \<open>
  \<^verbatim>\<open>makeApiRequest\<close>. The request (URL, payload) only reaches the network, whose
  answer is the parameter \<open>t\<close>. \<open>aStreamCallback\<close> is \<^const>\<open>None\<close> for a null
  \<^verbatim>\<open>std::function\<close>.
\<close>

definition makeApiRequest ::
  "transfer \<Rightarrow> bool \<Rightarrow> (string \<Rightarrow> 'u \<Rightarrow> 'u) option \<Rightarrow> 'u \<Rightarrow> AI_RESPONSE \<times> 'u" where
  "makeApiRequest t aStream aStreamCallback u =
     (case t of
        CurlError txt \<Rightarrow>
          (AI_RESPONSE_default\<lparr>error := ''Failed to connect to Ollama: '' @ txt\<rparr>, u)
      | CurlOk tokens whole \<Rightarrow>
          (case (if aStream then aStreamCallback else None) of
             Some cb \<Rightarrow>
               (let (completeMessage, u') = stream_loop tokens cb [] u
                in (AI_RESPONSE_default
                      \<lparr>success := True, message := completeMessage, isComplete := True\<rparr>,
                    u'))
           | None \<Rightarrow>
               (case whole of
                  Unparsable what \<Rightarrow>
                    (AI_RESPONSE_default
                       \<lparr>error := ''Failed to parse Ollama response: '' @ what\<rparr>, u)
                | Parsed response err \<Rightarrow>
                    (case response of
                       Value txt \<Rightarrow>
                         (AI_RESPONSE_default
                            \<lparr>success := True, message := txt, isComplete := True\<rparr>, u)
                     | WrongType what \<Rightarrow>
                         (AI_RESPONSE_default
                            \<lparr>error := ''Failed to parse Ollama response: '' @ what\<rparr>, u)
                     | Missing \<Rightarrow>
                         (case err of
                            Value txt \<Rightarrow> (AI_RESPONSE_default\<lparr>error := txt\<rparr>, u)
                          | WrongType what \<Rightarrow>
                              (AI_RESPONSE_default
                                 \<lparr>error := ''Failed to parse Ollama response: '' @ what\<rparr>,
                               u)
                          | Missing \<Rightarrow>
                              (AI_RESPONSE_default
                                 \<lparr>error := ''Unexpected response format from Ollama''\<rparr>,
                               u))))))"

text \<open>\<^verbatim>\<open>IsAvailable()\<close>: the cached flag, or a fresh probe \<open>conn\<close>.\<close>

definition IsAvailable :: "OLLAMA_AI_SERVICE \<Rightarrow> bool \<Rightarrow> bool" where
  "IsAvailable svc conn = (if m_availabilityChecked svc then m_isAvailable svc else conn)"

text \<open>
  \<^verbatim>\<open>ProcessPromptStreaming\<close>: its parameters are the prompt, the context and the
  callback; there is no cancel token. Prompt and context only shape the payload.
\<close>

definition ProcessPromptStreaming ::
  "OLLAMA_AI_SERVICE \<Rightarrow> bool \<Rightarrow> transfer \<Rightarrow> (string \<Rightarrow> 'u \<Rightarrow> 'u) option \<Rightarrow> 'u
     \<Rightarrow> AI_RESPONSE \<times> 'u" where
  "ProcessPromptStreaming svc conn t aCallback u =
     (if \<not> IsAvailable svc conn then
        (\<lparr>success = False, message = [], error = ''Ollama service is not available.'',
          isComplete = False\<rparr>, u)
      else makeApiRequest t True aCallback u)"

subsection \<open>The chat panel's chunk callback\<close>

text \<open>
  The cancel token \<^verbatim>\<open>m_cancelRequested\<close> lives in the chat panel and is raised by the
  user while the stream is consumed. \<open>cancel_after = Some k\<close> says that the token goes
  up once \<open>k\<close> fragments have been handed to the callback; \<open>seen\<close> counts them and
  \<open>posted\<close> are the fragments the callback forwarded to the UI thread.
\<close>

record panel =
  cancel_after :: "nat option"
  seen :: nat
  posted :: "string list"

definition m_cancelRequested :: "panel \<Rightarrow> bool" where
  "m_cancelRequested p = (case cancel_after p of None \<Rightarrow> False | Some k \<Rightarrow> k \<le> seen p)"

text \<open>The lambda passed to \<^verbatim>\<open>ProcessPromptStreaming\<close> by
  \<^verbatim>\<open>PANEL_AI_CHAT::processCommand\<close>.\<close>

definition on_chunk :: "string \<Rightarrow> panel \<Rightarrow> panel" where
  "on_chunk chunk p =
     (if m_cancelRequested p then p\<lparr>seen := seen p + 1\<rparr>
      else p\<lparr>seen := seen p + 1, posted := posted p @ [chunk]\<rparr>)"

text \<open>The fragments the loop of \<^verbatim>\<open>makeApiRequest\<close> reads: every \<^verbatim>\<open>response\<close> string
  up to the first token whose \<^verbatim>\<open>done\<close> is read as true.\<close>

fun fragments :: "stream_line list \<Rightarrow> string list" where
  "fragments [] = []"
| "fragments (JsonLine (Value chunk) done # rest) =
     chunk # (if done = Value True then [] else fragments rest)"
| "fragments (JsonLine Missing done # rest) =
     (if done = Value True then [] else fragments rest)"
| "fragments (_ # rest) = fragments rest"

subsection \<open>The command parsers\<close>

text \<open>
  The parsers match a \<^verbatim>\<open>wxRegEx\<close> (compiled with \<^verbatim>\<open>wxRE_ICASE\<close>) anywhere in the
  command. Each expression is a sequence of literals and greedy repetitions of a
  character class, and every repetition is followed by a token that cannot start with a
  character of the class; the optional \<^verbatim>\<open>at\<close> group is greedy and the expression is
  not anchored at its end. So the match at a start position, if there is one, is the one
  the left-to-right scan below finds, and the match of the whole command is the scan at
  the leftmost start position where it succeeds.
\<close>

definition re_space :: "char \<Rightarrow> bool" where
  "re_space c = (c \<in> set [CHR '' '', CHR 0x09, CHR 0x0A, CHR 0x0B, CHR 0x0C, CHR 0x0D])"

definition re_digit :: "char \<Rightarrow> bool" where
  "re_digit c = (c \<in> set ''0123456789'')"

definition re_word :: "char \<Rightarrow> bool" where
  "re_word c =
     (c \<in> set ''abcdefghijklmnopqrstuvwxyzABCDEFGHIJKLMNOPQRSTUVWXYZ0123456789_'')"

text \<open>The class \<^verbatim>\<open>[\w\-]\<close>.\<close>

definition re_word_dash :: "char \<Rightarrow> bool" where
  "re_word_dash c = (re_word c \<or> c = CHR ''-'')"

text \<open>A literal, compared without case; the result is the rest of the input.\<close>

fun lit :: "string \<Rightarrow> string \<Rightarrow> string option" where
  "lit [] s = Some s"
| "lit (p # ps) [] = None"
| "lit (p # ps) (c # cs) = (if wxTolower c = wxTolower p then lit ps cs else None)"

text \<open>\<^verbatim>\<open>C+\<close> for a character class: the longest run, which must not be empty.\<close>

definition many1 :: "(char \<Rightarrow> bool) \<Rightarrow> string \<Rightarrow> (string \<times> string) option" where
  "many1 C s = (if takeWhile C s = [] then None else Some (takeWhile C s, dropWhile C s))"

text \<open>\<^verbatim>\<open>[+-]?\d+\<close>.\<close>

definition signed_digits :: "string \<Rightarrow> (string \<times> string) option" where
  "signed_digits s =
     (case s of
        [] \<Rightarrow> None
      | c # cs \<Rightarrow>
          if c = CHR ''+'' \<or> c = CHR ''-'' then
            (case many1 re_digit cs of
               None \<Rightarrow> None
             | Some (ds, r) \<Rightarrow> Some (c # ds, r))
          else many1 re_digit s)"

text \<open>The leftmost start position at which the scan \<open>m\<close> succeeds.\<close>

fun re_search :: "(string \<Rightarrow> 'a option) \<Rightarrow> string \<Rightarrow> 'a option" where
  "re_search m [] = m []"
| "re_search m (c # cs) =
     (case m (c # cs) of Some x \<Rightarrow> Some x | None \<Rightarrow> re_search m cs)"

text \<open>The optional group \<^verbatim>\<open>(?:\s+at\s+([+-]?\d+)\s*,\s*([+-]?\d+))?\<close>; a group that
  took no part in the match reads as the empty string.\<close>

definition at_clause :: "string \<Rightarrow> string \<times> string" where
  "at_clause s =
     (case do {
        (_, r) \<leftarrow> many1 re_space s;
        r \<leftarrow> lit ''at'' r;
        (_, r) \<leftarrow> many1 re_space r;
        (x, r) \<leftarrow> signed_digits r;
        r \<leftarrow> lit '','' (dropWhile re_space r);
        (y, r) \<leftarrow> signed_digits (dropWhile re_space r);
        Some (x, y)
      } of None \<Rightarrow> ([], []) | Some xy \<Rightarrow> xy)"

text \<open>\<^verbatim>\<open>add\s+component\s+([\w\-]+):([\w\-]+)(?:\s+at\s+([+-]?\d+)\s*,\s*([+-]?\d+))?\<close>
  at the start of \<open>s\<close>: the groups 1 to 4.\<close>

definition add_component_lib_re :: "string \<Rightarrow> (string \<times> string \<times> string \<times> string) option" where
  "add_component_lib_re s =
     do {
       r \<leftarrow> lit ''add'' s;
       (_, r) \<leftarrow> many1 re_space r;
       r \<leftarrow> lit ''component'' r;
       (_, r) \<leftarrow> many1 re_space r;
       (lib, r) \<leftarrow> many1 re_word_dash r;
       r \<leftarrow> lit '':'' r;
       (sym, r) \<leftarrow> many1 re_word_dash r;
       Some (lib, sym, at_clause r)
     }"

text \<open>\<^verbatim>\<open>add\s+component\s+(\w+)(?:\s+at\s+([+-]?\d+)\s*,\s*([+-]?\d+))?\<close>: the
  groups 1 to 3.\<close>

definition add_component_bare_re :: "string \<Rightarrow> (string \<times> string \<times> string) option" where
  "add_component_bare_re s =
     do {
       r \<leftarrow> lit ''add'' s;
       (_, r) \<leftarrow> many1 re_space r;
       r \<leftarrow> lit ''component'' r;
       (_, r) \<leftarrow> many1 re_space r;
       (sym, r) \<leftarrow> many1 re_word r;
       Some (sym, at_clause r)
     }"

text \<open>The alternative \<^verbatim>\<open>(?:connect|wire)\<close>.\<close>

definition connect_or_wire :: "string \<Rightarrow> string option" where
  "connect_or_wire s =
     (case lit ''connect'' s of Some r \<Rightarrow> Some r | None \<Rightarrow> lit ''wire'' s)"

text \<open>\<^verbatim>\<open>(?:connect|wire)\s+(\w+)\.([\w\d]+)\s+to\s+(\w+)\.([\w\d]+)\<close>.\<close>

definition connect_dot_re :: "string \<Rightarrow> (string \<times> string \<times> string \<times> string) option" where
  "connect_dot_re s =
     do {
       r \<leftarrow> connect_or_wire s;
       (_, r) \<leftarrow> many1 re_space r;
       (ref1, r) \<leftarrow> many1 re_word r;
       r \<leftarrow> lit ''.'' r;
       (pin1, r) \<leftarrow> many1 re_word r;
       (_, r) \<leftarrow> many1 re_space r;
       r \<leftarrow> lit ''to'' r;
       (_, r) \<leftarrow> many1 re_space r;
       (ref2, r) \<leftarrow> many1 re_word r;
       r \<leftarrow> lit ''.'' r;
       (pin2, r) \<leftarrow> many1 re_word r;
       Some (ref1, pin1, ref2, pin2)
     }"

text \<open>\<^verbatim>\<open>(?:connect|wire)\s+(\w+)\s+pin\s+([\w\d]+)\s+to\s+(\w+)\s+pin\s+([\w\d]+)\<close>.\<close>

definition connect_pin_re :: "string \<Rightarrow> (string \<times> string \<times> string \<times> string) option" where
  "connect_pin_re s =
     do {
       r \<leftarrow> connect_or_wire s;
       (_, r) \<leftarrow> many1 re_space r;
       (ref1, r) \<leftarrow> many1 re_word r;
       (_, r) \<leftarrow> many1 re_space r;
       r \<leftarrow> lit ''pin'' r;
       (_, r) \<leftarrow> many1 re_space r;
       (pin1, r) \<leftarrow> many1 re_word r;
       (_, r) \<leftarrow> many1 re_space r;
       r \<leftarrow> lit ''to'' r;
       (_, r) \<leftarrow> many1 re_space r;
       (ref2, r) \<leftarrow> many1 re_word r;
       (_, r) \<leftarrow> many1 re_space r;
       r \<leftarrow> lit ''pin'' r;
       (_, r) \<leftarrow> many1 re_space r;
       (pin2, r) \<leftarrow> many1 re_word r;
       Some (ref1, pin1, ref2, pin2)
     }"

text \<open>\<^verbatim>\<open>(?:modify|change)\s+component\s+(\w+)\<close>.\<close>

definition modify_component_re :: "string \<Rightarrow> string option" where
  "modify_component_re s =
     do {
       r \<leftarrow> (case lit ''modify'' s of Some r \<Rightarrow> Some r | None \<Rightarrow> lit ''change'' s);
       (_, r) \<leftarrow> many1 re_space r;
       r \<leftarrow> lit ''component'' r;
       (_, r) \<leftarrow> many1 re_space r;
       (refDes, r) \<leftarrow> many1 re_word r;
       Some refDes
     }"

text \<open>
  \<^verbatim>\<open>wxString::ToLong\<close> on a regex group, which is empty or of the form
  \<^verbatim>\<open>[+-]?\d+\<close>: the value, unless the string is empty or the value does not fit a
  \<^verbatim>\<open>long\<close> (64 bits). \<^verbatim>\<open>static_cast<int>\<close> then keeps the low 32 bits.
\<close>

fun index_of :: "char \<Rightarrow> string \<Rightarrow> nat" where
  "index_of c [] = 0"
| "index_of c (x # xs) = (if c = x then 0 else Suc (index_of c xs))"

definition digits_value :: "string \<Rightarrow> int" where
  "digits_value ds = fold (\<lambda>c n. 10 * n + int (index_of c ''0123456789'')) ds 0"

definition ToLong :: "string \<Rightarrow> int option" where
  "ToLong s =
     (let (neg, ds) =
            (case s of
               [] \<Rightarrow> (False, [])
             | c # cs \<Rightarrow>
                 if c = CHR ''-'' then (True, cs)
                 else if c = CHR ''+'' then (False, cs) else (False, s));
          v = (if neg then - digits_value ds else digits_value ds)
      in if ds = [] \<or> \<not> list_all re_digit ds then None
         else if - (2 ^ 63) \<le> v \<and> v < 2 ^ 63 then Some v else None)"

definition static_cast_int :: "int \<Rightarrow> int" where
  "static_cast_int v = (v + 2 ^ 31) mod 2 ^ 32 - 2 ^ 31"

type_synonym VECTOR2I = "int \<times> int"

text \<open>The assignment of the two coordinates, made only when both groups convert.\<close>

definition set_position :: "string \<Rightarrow> string \<Rightarrow> VECTOR2I \<Rightarrow> VECTOR2I" where
  "set_position xs ys aPosition =
     (case ToLong xs of
        None \<Rightarrow> aPosition
      | Some x \<Rightarrow>
          (case ToLong ys of
             None \<Rightarrow> aPosition
           | Some y \<Rightarrow> (static_cast_int x, static_cast_int y)))"

text \<open>
  \<^verbatim>\<open>parseAddComponent\<close>: \<^const>\<open>None\<close> for \<^verbatim>\<open>false\<close>, else the component name and
  the position, which is the caller's \<open>aPosition\<close> unless the coordinates were read.
  \<^verbatim>\<open>GetMatchCount()\<close> is the number of groups of the expression plus one, so both
  tests on it hold.
\<close>

definition parseAddComponent :: "string \<Rightarrow> VECTOR2I \<Rightarrow> (string \<times> VECTOR2I) option" where
  "parseAddComponent aCommand aPosition =
     (case re_search add_component_lib_re aCommand of
        Some (libName, symName, xs, ys) \<Rightarrow>
          Some (libName @ '':'' @ symName, set_position xs ys aPosition)
      | None \<Rightarrow>
          (case re_search add_component_bare_re aCommand of
             Some (name, xs, ys) \<Rightarrow> Some (name, set_position xs ys aPosition)
           | None \<Rightarrow> None))"

definition parseConnectCommand :: "string \<Rightarrow> (string \<times> string \<times> string \<times> string) option" where
  "parseConnectCommand aCommand =
     (case re_search connect_dot_re aCommand of
        Some m \<Rightarrow> Some m
      | None \<Rightarrow> re_search connect_pin_re aCommand)"

definition parseModifyComponent :: "string \<Rightarrow> string option" where
  "parseModifyComponent aCommand = re_search modify_component_re aCommand"

subsection \<open>The host: frame, libraries and schematic\<close>

record AI_COMMAND_RESULT =
  success :: bool
  message :: string
  error :: string

datatype FRAME_T =
    FRAME_SCH
  | FRAME_SCH_SYMBOL_EDITOR
  | FRAME_PCB_EDITOR
  | FRAME_FOOTPRINT_EDITOR
  | FRAME_OTHER

record LIB_ID =
  LibNickname :: string
  LibItemName :: string

record SCH_PIN =
  ShownName :: string
  ShownNumber :: string
  Position :: VECTOR2I

text \<open>An entry of the \<^verbatim>\<open>SCH_REFERENCE_LIST\<close>: \<^verbatim>\<open>GetRef()\<close> and the pins of
  \<^verbatim>\<open>GetSymbol()\<close>.\<close>

record SCH_REFERENCE =
  Ref :: string
  Pins :: "SCH_PIN list"

text \<open>What the executor adds to the screen: a \<^verbatim>\<open>SCH_SYMBOL\<close> with its library id and
  position, or a \<^verbatim>\<open>SCH_LINE\<close> on the wire layer with its two end points.\<close>

datatype SCH_ITEM =
    Symbol LIB_ID VECTOR2I
  | Wire VECTOR2I VECTOR2I

text \<open>
  The symbol library adapter. A table row is its nickname, \<^const>\<open>None\<close> for a null row
  pointer. \<open>RowsAll\<close> is \<^verbatim>\<open>Rows( LIBRARY_TABLE_SCOPE::BOTH, true )\<close>, \<open>Rows\<close> is
  \<^verbatim>\<open>Rows()\<close>; \<open>LoadSymbol\<close> says whether the pointer returned is not null.
\<close>

record SYMBOL_LIBRARY_ADAPTER =
  RowsAll :: "string option list"
  Rows :: "string option list"
  LoadSymbol :: "string \<Rightarrow> string \<Rightarrow> bool"
  GetSymbolNames :: "string \<Rightarrow> string list"

text \<open>
  The frame \<^verbatim>\<open>m_frame\<close> points to, as far as the processor reads it: its frame type,
  whether \<^verbatim>\<open>dynamic_cast<SCH_EDIT_FRAME*>\<close> succeeds, the project's symbol library
  adapter (\<^const>\<open>None\<close> for null), whether \<^verbatim>\<open>GetScreen()\<close> is not null, and the
  reference list the hierarchy yields for the items on the screen. The board handler
  reads the design and never edits it; it is a parameter.
\<close>

record frame =
  GetFrameType :: FRAME_T
  is_SCH_EDIT_FRAME :: bool
  SymbolLibAdapter :: "SYMBOL_LIBRARY_ADAPTER option"
  has_screen :: bool
  GetSymbols :: "SCH_ITEM list \<Rightarrow> SCH_REFERENCE list"
  processBoardCommand :: "string \<Rightarrow> AI_COMMAND_RESULT"

text \<open>The state the executor changes: the items on the screen, the labels of the
  commits pushed, and the screen's content-modified flag.\<close>

record schematic =
  items :: "SCH_ITEM list"
  commits :: "string list"
  ContentModified :: bool

definition GetContext :: "frame option \<Rightarrow> string" where
  "GetContext m_frame =
     (case m_frame of
        None \<Rightarrow> ''unknown''
      | Some fr \<Rightarrow>
          (case GetFrameType fr of
             FRAME_SCH \<Rightarrow> ''schematic''
           | FRAME_SCH_SYMBOL_EDITOR \<Rightarrow> ''schematic''
           | FRAME_PCB_EDITOR \<Rightarrow> ''board''
           | FRAME_FOOTPRINT_EDITOR \<Rightarrow> ''board''
           | FRAME_OTHER \<Rightarrow> ''unknown''))"

text \<open>\<^verbatim>\<open>wxString::Format\<close> of a \<^verbatim>\<open>%d\<close>.\<close>

fun digit_char :: "int \<Rightarrow> char" where
  "digit_char k = ''0123456789'' ! nat k"

function show_digits :: "int \<Rightarrow> string" where
  "show_digits n =
     (if n < 10 then [digit_char n]
      else show_digits (n div 10) @ [digit_char (n mod 10)])"
  by pat_completeness auto
termination
  by (relation "measure nat") auto

declare show_digits.simps [simp del]

definition show_int :: "int \<Rightarrow> string" where
  "show_int i = (if i < 0 then CHR ''-'' # show_digits (- i) else show_digits i)"

text \<open>\<^verbatim>\<open>wxJoin( arr, sep )\<close> with its default escape character, the backslash: a
  separator inside an item is escaped, and so is a backslash at the end of what was
  joined so far.\<close>

definition escape_item :: "char \<Rightarrow> string \<Rightarrow> string" where
  "escape_item sep item = concat (map (\<lambda>ch. if ch = sep then [CHR 0x5C, ch] else [ch]) item)"

fun wxJoin_loop :: "string \<Rightarrow> string list \<Rightarrow> char \<Rightarrow> string" where
  "wxJoin_loop str [] sep = str"
| "wxJoin_loop str (item # rest) sep =
     wxJoin_loop
       (str @ (if str \<noteq> [] \<and> last str = CHR 0x5C then [CHR 0x5C] else []) @ [sep]
          @ escape_item sep item)
       rest sep"

definition wxJoin :: "string list \<Rightarrow> char \<Rightarrow> string" where
  "wxJoin arr sep =
     (case arr of [] \<Rightarrow> [] | item # rest \<Rightarrow> wxJoin_loop (escape_item sep item) rest sep)"

text \<open>\<^verbatim>\<open>GetLibraryNames\<close>: the non-empty nicknames of the non-null rows of both
  tables.\<close>

fun GetLibraryNames_loop :: "string option list \<Rightarrow> string list" where
  "GetLibraryNames_loop [] = []"
| "GetLibraryNames_loop (None # rest) = GetLibraryNames_loop rest"
| "GetLibraryNames_loop (Some nickname # rest) =
     (if nickname \<noteq> [] then nickname # GetLibraryNames_loop rest
      else GetLibraryNames_loop rest)"

definition GetLibraryNames :: "SYMBOL_LIBRARY_ADAPTER option \<Rightarrow> string list" where
  "GetLibraryNames aAdapter =
     (case aAdapter of None \<Rightarrow> [] | Some ad \<Rightarrow> GetLibraryNames_loop (RowsAll ad))"

subsection \<open>The action executor\<close>

text \<open>The row loop of \<^verbatim>\<open>processSchematicCommand\<close>: \<^verbatim>\<open>actualLibName\<close>, the nickname
  of the first row that equals \<open>libName\<close> without case, empty when there is none.\<close>

fun find_row :: "string option list \<Rightarrow> string \<Rightarrow> string" where
  "find_row [] libName = []"
| "find_row (None # rest) libName = find_row rest libName"
| "find_row (Some nickname # rest) libName =
     (if CmpNoCase_eq nickname libName then nickname else find_row rest libName)"

text \<open>The loops of \<^verbatim>\<open>findSymbolByName\<close> over the symbol names of a library and over
  the rows.\<close>

fun find_symbol_name :: "string list \<Rightarrow> string \<Rightarrow> string option" where
  "find_symbol_name [] aSymbolName = None"
| "find_symbol_name (symName # rest) aSymbolName =
     (if CmpNoCase_eq symName aSymbolName then Some symName
      else find_symbol_name rest aSymbolName)"

fun find_in_rows :: "SYMBOL_LIBRARY_ADAPTER \<Rightarrow> string option list \<Rightarrow> string \<Rightarrow> LIB_ID option" where
  "find_in_rows ad [] aSymbolName = None"
| "find_in_rows ad (None # rest) aSymbolName = find_in_rows ad rest aSymbolName"
| "find_in_rows ad (Some libName # rest) aSymbolName =
     (case find_symbol_name (GetSymbolNames ad libName) aSymbolName of
        Some symName \<Rightarrow> Some \<lparr>LibNickname = libName, LibItemName = symName\<rparr>
      | None \<Rightarrow> find_in_rows ad rest aSymbolName)"

text \<open>\<^verbatim>\<open>findSymbolByName\<close>: \<^const>\<open>None\<close> for \<^verbatim>\<open>false\<close>, else the library id.\<close>

definition findSymbolByName :: "frame \<Rightarrow> string \<Rightarrow> LIB_ID option" where
  "findSymbolByName fr aSymbolName =
     (case SymbolLibAdapter fr of
        None \<Rightarrow> None
      | Some ad \<Rightarrow>
          if Contains aSymbolName '':'' then
            (let libName = BeforeFirst aSymbolName CHR '':'';
                 symbolName = AfterFirst aSymbolName CHR '':''
             in if LoadSymbol ad libName symbolName
                then Some \<lparr>LibNickname = libName, LibItemName = symbolName\<rparr>
                else None)
          else find_in_rows ad (Rows ad) aSymbolName)"

text \<open>
  The row loop of \<^verbatim>\<open>executePlaceComponent\<close>: whether a symbol was loaded, and
  \<^verbatim>\<open>actualLibNickname\<close>. Each row that equals the nickname without case overwrites
  \<^verbatim>\<open>actualLibNickname\<close>; the loop stops at the first such row whose symbol loads.
\<close>

fun load_loop ::
  "SYMBOL_LIBRARY_ADAPTER \<Rightarrow> string option list \<Rightarrow> string \<Rightarrow> string \<Rightarrow> string \<Rightarrow> bool \<times> string" where
  "load_loop ad [] libNickname libItemName actualLibNickname = (False, actualLibNickname)"
| "load_loop ad (None # rest) libNickname libItemName actualLibNickname =
     load_loop ad rest libNickname libItemName actualLibNickname"
| "load_loop ad (Some nickname # rest) libNickname libItemName actualLibNickname =
     (if CmpNoCase_eq nickname libNickname then
        (if LoadSymbol ad nickname libItemName then (True, nickname)
         else load_loop ad rest libNickname libItemName nickname)
      else load_loop ad rest libNickname libItemName actualLibNickname)"

text \<open>\<^verbatim>\<open>executePlaceComponent\<close>: the result and the schematic after it. The new symbol
  is added to the screen and the commit \<^verbatim>\<open>Place Symbol\<close> is pushed; autoplacing its
  fields and refreshing the canvas leave the modelled state as it is.\<close>

definition executePlaceComponent :: "frame \<Rightarrow> LIB_ID \<Rightarrow> VECTOR2I \<Rightarrow> schematic \<Rightarrow> bool \<times> schematic" where
  "executePlaceComponent fr aLibId aPosition st =
     (if \<not> is_SCH_EDIT_FRAME fr then (False, st)
      else
        (case SymbolLibAdapter fr of
           None \<Rightarrow> (False, st)
         | Some ad \<Rightarrow>
             (case load_loop ad (Rows ad) (LibNickname aLibId) (LibItemName aLibId) [] of
                (False, _) \<Rightarrow> (False, st)
              | (True, actualLibNickname) \<Rightarrow>
                  if \<not> has_screen fr then (False, st)
                  else
                    (True,
                     st\<lparr>items := items st @
                          [Symbol \<lparr>LibNickname = actualLibNickname,
                                   LibItemName = LibItemName aLibId\<rparr> aPosition],
                        commits := commits st @ [''Place Symbol'']\<rparr>))))"

text \<open>\<^verbatim>\<open>executeDrawWire\<close>.\<close>

definition executeDrawWire :: "frame \<Rightarrow> VECTOR2I \<Rightarrow> VECTOR2I \<Rightarrow> schematic \<Rightarrow> bool \<times> schematic" where
  "executeDrawWire fr aStart aEnd st =
     (if \<not> is_SCH_EDIT_FRAME fr then (False, st)
      else if \<not> has_screen fr then (False, st)
      else
        (True,
         st\<lparr>items := items st @ [Wire aStart aEnd],
            commits := commits st @ [''Draw Wire'']\<rparr>))"

text \<open>The reference loop of \<^verbatim>\<open>executeConnectComponents\<close>, which has no
  \<^verbatim>\<open>break\<close>: the pins of the last reference that equals \<open>aRef\<close> without case,
  \<^const>\<open>None\<close> while the symbol pointer is null.\<close>

fun find_symbol :: "SCH_REFERENCE list \<Rightarrow> string \<Rightarrow> SCH_PIN list option \<Rightarrow> SCH_PIN list option" where
  "find_symbol [] aRef symbol = symbol"
| "find_symbol (r # rest) aRef symbol =
     find_symbol rest aRef (if CmpNoCase_eq (Ref r) aRef then Some (Pins r) else symbol)"

text \<open>\<^verbatim>\<open>pin1Alt\<close>: the pin is_ident without its leading \<^verbatim>\<open>P\<close>, or empty.\<close>

definition pin_alt :: "string \<Rightarrow> string" where
  "pin_alt aPin = (if StartsWith aPin ''P'' \<and> length aPin > 1 then Mid aPin 1 else [])"

text \<open>The pin loop: the first pin whose shown name or number equals the is_ident or
  its alternative, without case.\<close>

fun find_pin :: "SCH_PIN list \<Rightarrow> string \<Rightarrow> string \<Rightarrow> SCH_PIN option" where
  "find_pin [] aPin pinAlt = None"
| "find_pin (pin # rest) aPin pinAlt =
     (if CmpNoCase_eq (ShownName pin) aPin \<or> CmpNoCase_eq (ShownNumber pin) aPin \<or>
         (pinAlt \<noteq> [] \<and>
            (CmpNoCase_eq (ShownName pin) pinAlt \<or> CmpNoCase_eq (ShownNumber pin) pinAlt))
      then Some pin
      else find_pin rest aPin pinAlt)"

definition executeConnectComponents ::
  "frame \<Rightarrow> string \<Rightarrow> string \<Rightarrow> string \<Rightarrow> string \<Rightarrow> schematic \<Rightarrow> bool \<times> schematic" where
  "executeConnectComponents fr aRef1 aPin1 aRef2 aPin2 st =
     (if \<not> is_SCH_EDIT_FRAME fr then (False, st)
      else
        (let refList = GetSymbols fr (items st);
             symbol1 = find_symbol refList aRef1 None;
             symbol2 = find_symbol refList aRef2 None
         in case (symbol1, symbol2) of
              (Some pins1, Some pins2) \<Rightarrow>
                (case (find_pin pins1 aPin1 (pin_alt aPin1),
                       find_pin pins2 aPin2 (pin_alt aPin2)) of
                   (Some pin1, Some pin2) \<Rightarrow>
                     executeDrawWire fr (Position pin1) (Position pin2) st
                 | _ \<Rightarrow> (False, st))
            | _ \<Rightarrow> (False, st)))"

text \<open>
  The block of \<^verbatim>\<open>processSchematicCommand\<close> that turns the component name into a
  \<^verbatim>\<open>LIB_ID\<close>: the error text of the early return, or the library id handed to
  \<^verbatim>\<open>executePlaceComponent\<close>.
\<close>

definition resolve_lib_id :: "frame \<Rightarrow> string \<Rightarrow> string + LIB_ID" where
  "resolve_lib_id fr componentName =
     (if Contains componentName '':'' then
        (let libName = BeforeFirst componentName CHR '':'';
             symName = AfterFirst componentName CHR '':''
         in case SymbolLibAdapter fr of
              Some ad \<Rightarrow>
                (let actualLibName = find_row (RowsAll ad) libName
                 in if actualLibName = [] then
                      (let availableLibs = GetLibraryNames (Some ad);
                           libList =
                             (if availableLibs = []
                              then ''(none - check Preferences > Manage Symbol Libraries)''
                              else wxJoin availableLibs CHR '','')
                       in Inl (''Library '' @ [CHR 0x27] @ libName @ [CHR 0x27]
                               @ '' not found. Available libraries: '' @ libList))
                    else Inr \<lparr>LibNickname = actualLibName, LibItemName = symName\<rparr>)
            | None \<Rightarrow> Inr \<lparr>LibNickname = libName, LibItemName = symName\<rparr>)
      else
        (case findSymbolByName fr componentName of
           None \<Rightarrow>
             Inl (''Component '' @ [CHR 0x27] @ componentName @ [CHR 0x27]
                  @ '' not found in libraries'')
         | Some libId \<Rightarrow> Inr libId))"

definition failure :: "string \<Rightarrow> AI_COMMAND_RESULT" where
  "failure err = \<lparr>success = False, message = [], error = err\<rparr>"

definition succeeded :: "string \<Rightarrow> AI_COMMAND_RESULT" where
  "succeeded msg = \<lparr>success = True, message = msg, error = []\<rparr>"

text \<open>\<^verbatim>\<open>processSchematicCommand\<close>, for the frame \<^verbatim>\<open>m_frame\<close> points to (the function
  is only reached when \<^verbatim>\<open>GetContext()\<close> is \<^verbatim>\<open>schematic\<close>, so the pointer is not
  null).\<close>

definition processSchematicCommand :: "frame \<Rightarrow> string \<Rightarrow> schematic \<Rightarrow> AI_COMMAND_RESULT \<times> schematic" where
  "processSchematicCommand fr aCommand st =
     (if \<not> is_SCH_EDIT_FRAME fr then (failure ''Not in schematic editor'', st)
      else if Contains aCommand ''add'' \<and>
              (Contains aCommand ''component'' \<or> Contains aCommand ''symbol'') then
        (case parseAddComponent aCommand (0, 0) of
           None \<Rightarrow> (failure ''Command not recognized or incomplete'', st)
         | Some (componentName, parsed) \<Rightarrow>
             (let hasPosition = (fst parsed \<noteq> 0 \<or> snd parsed \<noteq> 0);
                  position = (if \<not> hasPosition then (100000, 100000) else parsed)
              in case resolve_lib_id fr componentName of
                   Inl err \<Rightarrow> (failure err, st)
                 | Inr libId \<Rightarrow>
                     (case executePlaceComponent fr libId position st of
                        (True, st') \<Rightarrow>
                          (succeeded
                             (''Added component '' @ [CHR 0x27] @ componentName @ [CHR 0x27]
                              @ '' at ('' @ show_int (fst position) @ '', ''
                              @ show_int (snd position) @ '')''),
                           st')
                      | (False, st') \<Rightarrow>
                          (failure
                             (''Failed to place component '' @ [CHR 0x27] @ componentName
                              @ [CHR 0x27] @ '' (library: '' @ LibNickname libId
                              @ '', symbol: '' @ LibItemName libId @ ''). ''
                              @ ''Check that the library is loaded and the symbol exists.''),
                           st'))))
      else if Contains aCommand ''connect'' \<or> Contains aCommand ''wire'' then
        (case parseConnectCommand aCommand of
           None \<Rightarrow> (failure ''Command not recognized or incomplete'', st)
         | Some (ref1, pin1, ref2, pin2) \<Rightarrow>
             (case executeConnectComponents fr ref1 pin1 ref2 pin2 st of
                (True, st') \<Rightarrow>
                  (succeeded
                     (''Connected '' @ ref1 @ ''.'' @ pin1 @ '' to '' @ ref2 @ ''.'' @ pin2),
                   st')
              | (False, st') \<Rightarrow>
                  (failure
                     (''Failed to connect '' @ ref1 @ ''.'' @ pin1 @ '' to '' @ ref2 @ ''.''
                      @ pin2),
                   st')))
      else if Contains aCommand ''modify'' \<or> Contains aCommand ''change'' then
        (case parseModifyComponent aCommand of
           None \<Rightarrow> (failure ''Command not recognized or incomplete'', st)
         | Some refDes \<Rightarrow>
             (succeeded (''Would modify component '' @ [CHR 0x27] @ refDes @ [CHR 0x27]), st))
      else (failure ''Command not recognized or incomplete'', st))"

text \<open>
  \<^verbatim>\<open>processDirectCommand\<close>: the command is lower-cased and trimmed on the right
  before it is routed. \<open>processGenericCommand\<close> is the handler of the unknown context,
  a parameter.
\<close>

definition processDirectCommand ::
  "(string \<Rightarrow> AI_COMMAND_RESULT) \<Rightarrow> frame option \<Rightarrow> string \<Rightarrow> schematic
     \<Rightarrow> AI_COMMAND_RESULT \<times> schematic" where
  "processDirectCommand processGenericCommand m_frame aCommand st =
     (let cmd = Trim_right (Lower aCommand);
          context = GetContext m_frame
      in case m_frame of
           None \<Rightarrow> (processGenericCommand cmd, st)
         | Some fr \<Rightarrow>
             if context = ''schematic'' then processSchematicCommand fr cmd st
             else if context = ''board'' then (processBoardCommand fr cmd, st)
             else (processGenericCommand cmd, st))"

subsection \<open>The response miner\<close>

text \<open>\<^verbatim>\<open>wxSplit( aResponse, '\n', '\0' )\<close>: without an escape character the string is
  cut at every separator and empty tokens are kept; the empty string has no token.\<close>

fun wxSplit_loop :: "string \<Rightarrow> string \<Rightarrow> char \<Rightarrow> string list" where
  "wxSplit_loop tok [] sep = [tok]"
| "wxSplit_loop tok (c # cs) sep =
     (if c = sep then tok # wxSplit_loop [] cs sep else wxSplit_loop (tok @ [c]) cs sep)"

definition wxSplit :: "string \<Rightarrow> char \<Rightarrow> string list" where
  "wxSplit str sep = (if str = [] then [] else wxSplit_loop [] str sep)"

text \<open>The test the miner repeats in three places: the string starts, without case,
  with \<^verbatim>\<open>add\<close>, \<^verbatim>\<open>connect\<close>, \<^verbatim>\<open>wire\<close> or \<^verbatim>\<open>place\<close>.\<close>

definition starts_with_verb :: "string \<Rightarrow> bool" where
  "starts_with_verb cmd =
     (StartsWith (Lower cmd) ''add'' \<or> StartsWith (Lower cmd) ''connect'' \<or>
      StartsWith (Lower cmd) ''wire'' \<or> StartsWith (Lower cmd) ''place'')"

text \<open>The first backtick-delimited span of a string, trimmed; \<^const>\<open>None\<close> when there
  is no opening or no closing backtick.\<close>

definition backtick_span :: "string \<Rightarrow> string option" where
  "backtick_span s =
     (case Find_char s CHR 0x60 of
        None \<Rightarrow> None
      | Some backtickStart \<Rightarrow>
          (case find_char_from s CHR 0x60 (backtickStart + 1) of
             None \<Rightarrow> None
           | Some backtickEnd \<Rightarrow>
               Some (Trim (SubString s (backtickStart + 1) (backtickEnd - 1)))))"

text \<open>The four extraction steps of the loop body, each giving the command it adds to
  \<^verbatim>\<open>allCommands\<close> or \<^const>\<open>None\<close> when the loop body goes on to the next step.\<close>

definition backtick_step :: "string \<Rightarrow> string option" where
  "backtick_step trimmed =
     (case backtick_span trimmed of
        None \<Rightarrow> None
      | Some cmd \<Rightarrow> if cmd \<noteq> [] \<and> starts_with_verb cmd then Some cmd else None)"

definition command_colon_step :: "string \<Rightarrow> string option" where
  "command_colon_step trimmed =
     (case Find (Lower trimmed) ''command:'' of
        None \<Rightarrow> None
      | Some cmdColonPos \<Rightarrow>
          (case backtick_span (Trim_left (Mid trimmed (cmdColonPos + 8))) of
             None \<Rightarrow> None
           | Some cmd \<Rightarrow> if cmd \<noteq> [] then Some cmd else None))"

definition numbered_step :: "string \<Rightarrow> string option" where
  "numbered_step trimmed =
     (if length trimmed \<ge> 3 \<and> wxIsdigit (trimmed ! 0) \<and>
         (trimmed ! 1 = CHR ''.'' \<or> trimmed ! 1 = CHR '')'')
      then (let cmd = Trim_left (Mid trimmed 2)
            in if starts_with_verb cmd then Some cmd else None)
      else None)"

definition direct_step :: "string \<Rightarrow> string option" where
  "direct_step trimmed = (if starts_with_verb trimmed then Some trimmed else None)"

text \<open>The loop body for one line.\<close>

definition extract_line :: "string \<Rightarrow> string option" where
  "extract_line line =
     (let trimmed = Trim line
      in if trimmed = [] \<or> StartsWith trimmed ''#'' then None
         else if StartsWith trimmed ''**'' \<and> EndsWith trimmed '':**'' then None
         else
           (case backtick_step trimmed of
              Some cmd \<Rightarrow> Some cmd
            | None \<Rightarrow>
                (case command_colon_step trimmed of
                   Some cmd \<Rightarrow> Some cmd
                 | None \<Rightarrow>
                     (case numbered_step trimmed of
                        Some cmd \<Rightarrow> Some cmd
                      | None \<Rightarrow> direct_step trimmed))))"

fun extract_lines :: "string list \<Rightarrow> string list" where
  "extract_lines [] = []"
| "extract_lines (line # rest) =
     (case extract_line line of
        None \<Rightarrow> extract_lines rest
      | Some cmd \<Rightarrow> cmd # extract_lines rest)"

text \<open>\<^verbatim>\<open>allCommands\<close> after the extraction loop of
  \<^verbatim>\<open>ProcessCommandsFromResponse\<close>.\<close>

definition extract_commands :: "string \<Rightarrow> string list" where
  "extract_commands aResponse = extract_lines (wxSplit aResponse CHR 0x0A)"

subsection \<open>The two passes\<close>

text \<open>The tests that admit a command to the first and to the second pass.\<close>

definition first_pass :: "string \<Rightarrow> bool" where
  "first_pass cmd = (Contains (Lower cmd) ''component'' \<or> Contains (Lower cmd) ''symbol'')"

definition second_pass :: "string \<Rightarrow> bool" where
  "second_pass cmd = (Contains (Lower cmd) ''connect'' \<or> Contains (Lower cmd) ''wire'')"

text \<open>
  The local variables of \<^verbatim>\<open>ProcessCommandsFromResponse\<close> that the pass loops update,
  the schematic, and \<open>calls\<close>: the arguments of the calls of \<^verbatim>\<open>processDirectCommand\<close> made
  so far, in call order, each with the number of the pass that made it. The counters are
  C++ \<^verbatim>\<open>int\<close>s that count commands of one response; they are modelled as integers.
\<close>

record pass_state =
  commandCount :: int
  failedCount :: int
  executedCommands :: string
  failedCommands :: string
  calls :: "(nat \<times> string) list"
  design :: schematic

text \<open>The check mark and the ballot cross of the report lines, in UTF-8.\<close>

definition check_mark :: string where
  "check_mark = [CHR 0xE2, CHR 0x9C, CHR 0x93]"

definition ballot_x :: string where
  "ballot_x = [CHR 0xE2, CHR 0x9C, CHR 0x97]"

text \<open>One pass loop. \<open>pass\<close> is the number of the pass, \<open>admits\<close> its test and \<open>exec\<close>
  is \<^verbatim>\<open>processDirectCommand\<close>.\<close>

fun run_pass ::
  "nat \<Rightarrow> (string \<Rightarrow> bool) \<Rightarrow> (string \<Rightarrow> schematic \<Rightarrow> AI_COMMAND_RESULT \<times> schematic)
     \<Rightarrow> string list \<Rightarrow> pass_state \<Rightarrow> pass_state" where
  "run_pass pass admits exec [] a = a"
| "run_pass pass admits exec (command # rest) a =
     (let cmd = Trim command
      in if admits cmd then
           (let (cmdResult, st') = exec cmd (design a);
                a' = a\<lparr>calls := calls a @ [(pass, cmd)], design := st'\<rparr>
            in if success cmdResult then
                 run_pass pass admits exec rest
                   (a'\<lparr>commandCount := commandCount a + 1,
                       executedCommands :=
                         executedCommands a
                         @ (if executedCommands a \<noteq> [] then [CHR 0x0A] else [])
                         @ check_mark @ '' '' @ cmd\<rparr>)
               else
                 run_pass pass admits exec rest
                   (a'\<lparr>failedCount := failedCount a + 1,
                       failedCommands :=
                         failedCommands a
                         @ (if failedCommands a \<noteq> [] then [CHR 0x0A] else [])
                         @ ballot_x @ '' '' @ cmd @ '' ('' @ error cmdResult @ '')''\<rparr>))
         else run_pass pass admits exec rest a)"

text \<open>
  The two pass loops of \<^verbatim>\<open>ProcessCommandsFromResponse\<close> with the statement between
  them: the screen is marked as modified when the frame is a schematic editor and a
  command of the first pass succeeded (\<^verbatim>\<open>LastScreen()\<close> is taken to be not null).
\<close>

definition two_passes ::
  "(string \<Rightarrow> schematic \<Rightarrow> AI_COMMAND_RESULT \<times> schematic) \<Rightarrow> bool \<Rightarrow> string list
     \<Rightarrow> schematic \<Rightarrow> pass_state" where
  "two_passes exec schFrame allCommands st =
     (let a0 = \<lparr>commandCount = 0, failedCount = 0, executedCommands = [],
                failedCommands = [], calls = [], design = st\<rparr>;
          a1 = run_pass 1 first_pass exec allCommands a0;
          a2 = (if schFrame \<and> commandCount a1 > 0
                then a1\<lparr>design := (design a1)\<lparr>ContentModified := True\<rparr>\<rparr>
                else a1)
      in run_pass 2 second_pass exec allCommands a2)"

text \<open>
  \<^verbatim>\<open>ProcessCommandsFromResponse\<close>: the result, the calls of
  \<^verbatim>\<open>processDirectCommand\<close> it made, and the schematic after it.
\<close>

definition ProcessCommandsFromResponse ::
  "(string \<Rightarrow> AI_COMMAND_RESULT) \<Rightarrow> frame option \<Rightarrow> string \<Rightarrow> schematic
     \<Rightarrow> AI_COMMAND_RESULT \<times> (nat \<times> string) list \<times> schematic" where
  "ProcessCommandsFromResponse processGenericCommand m_frame aResponse st =
     (case m_frame of
        None \<Rightarrow> (failure ''No frame available'', [], st)
      | Some fr \<Rightarrow>
          (let a = two_passes (processDirectCommand processGenericCommand m_frame)
                     (is_SCH_EDIT_FRAME fr) (extract_commands aResponse) st
           in if commandCount a > 0 \<or> failedCount a > 0 then
                (succeeded
                   (''Executed '' @ show_int (commandCount a) @ '' command(s)''
                    @ (if failedCount a > 0
                       then '', '' @ show_int (failedCount a) @ '' failed'' else [])
                    @ '':'' @ [CHR 0x0A] @ executedCommands a
                    @ (if failedCommands a \<noteq> []
                       then [CHR 0x0A, CHR 0x0A] @ ''Failed:'' @ [CHR 0x0A] @ failedCommands a
                       else [])),
                 calls a, design a)
              else (failure ''No commands found in response'', calls a, design a)))"

subsection \<open>A sample schematic editor\<close>

text \<open>
  A schematic editor frame with the libraries \<^verbatim>\<open>Device\<close> and \<^verbatim>\<open>Connector\<close>, and a
  sheet on which \<^verbatim>\<open>U1\<close> (pin \<^verbatim>\<open>VIN\<close>, number 1) and \<^verbatim>\<open>C1\<close> (pins 1 and 2) are
  annotated. It is the concrete input of the evaluations below.
\<close>

definition sample_adapter :: SYMBOL_LIBRARY_ADAPTER where
  "sample_adapter =
     \<lparr>RowsAll = [Some ''Device'', Some ''Connector''],
      Rows = [Some ''Device'', Some ''Connector''],
      LoadSymbol = (\<lambda>lib sym. (lib, sym) \<in> set [(''Device'', ''r''), (''Connector'', ''conn'')]),
      GetSymbolNames = (\<lambda>lib. if lib = ''Device'' then [''R'', ''C''] else [''Conn''])\<rparr>"

definition sample_references :: "SCH_REFERENCE list" where
  "sample_references =
     [\<lparr>Ref = ''U1'',
       Pins = [\<lparr>ShownName = ''VIN'', ShownNumber = ''1'', Position = (10, 20)\<rparr>]\<rparr>,
      \<lparr>Ref = ''C1'',
       Pins = [\<lparr>ShownName = ''~'', ShownNumber = ''1'', Position = (30, 40)\<rparr>,
               \<lparr>ShownName = ''~'', ShownNumber = ''2'', Position = (30, 50)\<rparr>]\<rparr>]"

definition sample_generic :: "string \<Rightarrow> AI_COMMAND_RESULT" where
  "sample_generic cmd = failure ''Command not recognized. Type 'help' for available commands.''"

definition sample_frame :: frame where
  "sample_frame =
     \<lparr>GetFrameType = FRAME_SCH, is_SCH_EDIT_FRAME = True,
      SymbolLibAdapter = Some sample_adapter, has_screen = True,
      GetSymbols = (\<lambda>_. sample_references),
      processBoardCommand = (\<lambda>_. failure ''Command not recognized or incomplete'')\<rparr>"

definition empty_schematic :: schematic where
  "empty_schematic = \<lparr>items = [], commits = [], ContentModified = False\<rparr>"

text \<open>A schematic editor of a project with no symbol library configured.\<close>

definition empty_adapter :: SYMBOL_LIBRARY_ADAPTER where
  "empty_adapter =
     \<lparr>RowsAll = [], Rows = [], LoadSymbol = (\<lambda>lib symb. False),
      GetSymbolNames = (\<lambda>lib. [])\<rparr>"

definition fresh_frame :: frame where
  "fresh_frame = sample_frame\<lparr>SymbolLibAdapter := Some empty_adapter\<rparr>"

text \<open>A schematic editor whose project yields no symbol library adapter, and a frame of
  type \<^verbatim>\<open>FRAME_SCH\<close> that is no \<^verbatim>\<open>SCH_EDIT_FRAME\<close> (as the mock frame of the unit
  tests).\<close>

definition detached_frame :: frame where
  "detached_frame = sample_frame\<lparr>SymbolLibAdapter := None\<rparr>"

definition mock_frame :: frame where
  "mock_frame = sample_frame\<lparr>is_SCH_EDIT_FRAME := False\<rparr>"

text \<open>
  A generator whose server answers, the stream of the fragments \<^verbatim>\<open>add\<close>,
  \<^verbatim>\<open>component\<close> and \<^verbatim>\<open>Device:R\<close>, and a chat panel whose user raises the cancel
  token after the second fragment.
\<close>

definition sample_service :: OLLAMA_AI_SERVICE where
  "sample_service =
     OLLAMA_AI_SERVICE_new ''http://localhost:11434'' True [''qwen2.5-coder:32b''] True"

definition sample_stream :: "stream_line list" where
  "sample_stream =
     [JsonLine (Value ''add '') (Value False),
      JsonLine (Value ''component '') (Value False),
      JsonLine (Value ''Device:R'') (Value True)]"

definition sample_panel :: panel where
  "sample_panel = \<lparr>cancel_after = Some 2, seen = 0, posted = []\<rparr>"

text \<open>
  The component names of the command grammar: \<^verbatim>\<open><lib>:<sym>\<close> with both parts in
  \<^verbatim>\<open>[\w\-]+\<close>, or a bare \<^verbatim>\<open><sym>\<close> in \<^verbatim>\<open>\w+\<close>.
\<close>

definition is_ident :: "(char \<Rightarrow> bool) \<Rightarrow> string \<Rightarrow> bool" where
  "is_ident C s = (s \<noteq> [] \<and> list_all C s)"

definition component_name :: "string \<Rightarrow> bool" where
  "component_name name =
     (if CHR '':'' \<in> set name
      then is_ident re_word_dash (BeforeFirst name CHR '':'') \<and>
           is_ident re_word_dash (AfterFirst name CHR '':'')
      else is_ident re_word name)"

text \<open>The invariant of the two counters: they count the calls made so far.\<close>

definition counted :: "pass_state \<Rightarrow> bool" where
  "counted a =
     (0 \<le> commandCount a \<and> 0 \<le> failedCount a \<and>
      commandCount a + failedCount a = int (length (calls a)))"

section \<open>Properties\<close>

subsection \<open>Default model selection\<close>

text \<open>
  C8. The constructor's comment announces that a model is auto-selected "if default not
  found", but the code never looks the preferred model up in the list: with the models
  \<^verbatim>\<open>codellama:7b\<close> and \<^verbatim>\<open>qwen2.5-coder:32b\<close> installed, in this order, the preferred
  \<^verbatim>\<open>qwen2.5-coder:32b\<close> is present and is nevertheless replaced by
  \<^verbatim>\<open>codellama:7b\<close>.
\<close>

theorem C8_preferred_model_replaced_although_present:
  "m_model (OLLAMA_AI_SERVICE_new ''http://localhost:11434'' True
              [''codellama:7b'', ''qwen2.5-coder:32b''] True) = ''codellama:7b''"
  by (simp add: OLLAMA_AI_SERVICE_new_def)

subsection \<open>The pass loops and the miner\<close>

text \<open>A pass calls \<^verbatim>\<open>processDirectCommand\<close> on the commands it admits, in list order, and
  its two counters count these calls.\<close>

lemma run_pass_calls:
  "calls (run_pass k adm exec cs a) = calls a @ map (Pair k) (filter adm (map Trim cs))"
proof (induction cs arbitrary: a)
  case Nil
  show ?case by simp
next
  case (Cons c cs)
  show ?case
  proof (cases "adm (Trim c)")
    case False
    then show ?thesis using Cons.IH by (simp add: Let_def)
  next
    case True
    obtain r st' where ex: "exec (Trim c) (design a) = (r, st')" by (cases "exec (Trim c) (design a)")
    show ?thesis
      using True ex Cons.IH by (cases "success r") (simp_all add: Let_def)
  qed
qed

lemma run_pass_counted:
  "counted a \<Longrightarrow> counted (run_pass k adm exec cs a)"
proof (induction cs arbitrary: a)
  case Nil
  then show ?case by simp
next
  case (Cons c cs)
  show ?case
  proof (cases "adm (Trim c)")
    case False
    then show ?thesis using Cons by (simp add: Let_def)
  next
    case True
    obtain r st' where ex: "exec (Trim c) (design a) = (r, st')" by (cases "exec (Trim c) (design a)")
    show ?thesis
    proof (cases "success r")
      case True
      have "counted (a\<lparr>calls := calls a @ [(k, Trim c)], design := st',
                commandCount := commandCount a + 1,
                executedCommands := executedCommands a
                         @ (if executedCommands a \<noteq> [] then [CHR 0x0A] else [])
                         @ check_mark @ '' '' @ Trim c\<rparr>)"
        using Cons.prems by (simp add: counted_def)
      from Cons.IH[OF this] show ?thesis
        using \<open>adm (Trim c)\<close> ex True by (simp add: Let_def)
    next
      case False
      have "counted (a\<lparr>calls := calls a @ [(k, Trim c)], design := st',
                failedCount := failedCount a + 1,
                failedCommands := failedCommands a
                         @ (if failedCommands a \<noteq> [] then [CHR 0x0A] else [])
                         @ ballot_x @ '' '' @ Trim c @ '' ('' @ error r @ '')''\<rparr>)"
        using Cons.prems by (simp add: counted_def)
      from Cons.IH[OF this] show ?thesis
        using \<open>adm (Trim c)\<close> ex False by (simp add: Let_def)
    qed
  qed
qed

lemma counted_attempted: "counted a \<Longrightarrow> (commandCount a > 0 \<or> failedCount a > 0) = (calls a \<noteq> [])"
  by (auto simp: counted_def)

lemma two_passes_calls:
  "calls (two_passes exec sch cs st) =
     map (Pair 1) (filter first_pass (map Trim cs)) @
     map (Pair 2) (filter second_pass (map Trim cs))"
  by (simp add: two_passes_def Let_def run_pass_calls)

lemma two_passes_counted: "counted (two_passes exec sch cs st)"
proof -
  let ?a0 = "\<lparr>commandCount = 0, failedCount = 0, executedCommands = [],
                     failedCommands = [], calls = [], design = st\<rparr>"
  let ?a1 = "run_pass 1 first_pass exec cs ?a0"
  let ?a2 = "(if sch \<and> commandCount ?a1 > 0
                     then ?a1\<lparr>design := (design ?a1)\<lparr>ContentModified := True\<rparr>\<rparr>
                     else ?a1)"
  have "counted ?a0" by (simp add: counted_def)
  then have "counted ?a1" by (rule run_pass_counted)
  then have "counted ?a2" by (simp add: counted_def)
  then have "counted (run_pass 2 second_pass exec cs ?a2)" by (rule run_pass_counted)
  then show ?thesis by (simp only: two_passes_def Let_def)
qed

lemma PCFR_calls:
  "fst (snd (ProcessCommandsFromResponse g (Some fr) aResponse st)) =
     map (Pair 1) (filter first_pass (map Trim (extract_commands aResponse))) @
     map (Pair 2) (filter second_pass (map Trim (extract_commands aResponse)))"
  by (simp add: ProcessCommandsFromResponse_def Let_def two_passes_calls)

lemma PCFR_success:
  "success (fst (ProcessCommandsFromResponse g m_frame aResponse st)) =
     (fst (snd (ProcessCommandsFromResponse g m_frame aResponse st)) \<noteq> [])"
proof (cases m_frame)
  case None
  then show ?thesis by (simp add: ProcessCommandsFromResponse_def failure_def)
next
  case (Some fr)
  let ?a = "two_passes (processDirectCommand g (Some fr)) (is_SCH_EDIT_FRAME fr) (extract_commands aResponse) st"
  have *: "(commandCount ?a > 0 \<or> failedCount ?a > 0) = (calls ?a \<noteq> [])"
    by (rule counted_attempted[OF two_passes_counted])
  show ?thesis
    using Some * by (simp add: ProcessCommandsFromResponse_def Let_def failure_def succeeded_def)
qed

lemma sorted_const: "sorted (map (\<lambda>_. c::nat) xs)"
  by (induction xs) auto

lemma sorted_tags: "sorted (map fst (map (Pair (1::nat)) xs @ map (Pair 2) ys))"
  by (simp add: sorted_append comp_def sorted_const)

lemma count_list_filter:
  "count_list (filter P xs) c = (if P c then count_list xs c else 0)"
  by (induction xs) auto

lemma count_list_tagged:
  "count_list (map (Pair k) xs) (j, c) = (if j = k then count_list xs c else 0)"
  by (induction xs) auto

lemma PCFR_count_pass:
  "count_list (fst (snd (ProcessCommandsFromResponse g (Some fr) aResponse st))) (j, c) =
     (if j = 1 \<and> first_pass c then count_list (map Trim (extract_commands aResponse)) c else 0) +
     (if j = 2 \<and> second_pass c then count_list (map Trim (extract_commands aResponse)) c else 0)"
  by (simp add: PCFR_calls count_list_tagged count_list_filter del: count_list.simps)

lemma PCFR_count:
  "count_list (map snd (fst (snd (ProcessCommandsFromResponse g (Some fr) aResponse st)))) c =
     (if first_pass c then count_list (map Trim (extract_commands aResponse)) c else 0) +
     (if second_pass c then count_list (map Trim (extract_commands aResponse)) c else 0)"
  by (simp add: PCFR_calls comp_def count_list_filter del: count_list.simps)

text \<open>Every candidate comes from one line, through one of the four steps.\<close>

lemma extract_lines_mem:
  "cmd \<in> set (extract_lines ls) \<Longrightarrow> \<exists>l\<in>set ls. extract_line l = Some cmd"
  by (induction ls) (auto split: option.splits)

lemma extract_line_cases:
  assumes "extract_line l = Some cmd"
  shows "starts_with_verb cmd \<or> (cmd \<noteq> [] \<and> command_colon_step (Trim l) = Some cmd)"
proof (cases "backtick_step (Trim l)")
  case (Some c)
  with assms have "c = cmd"
    by (simp add: extract_line_def Let_def split: if_splits)
  with Some show ?thesis
    by (auto simp: backtick_step_def split: option.splits if_splits)
next
  case None
  note bt = None
  show ?thesis
  proof (cases "command_colon_step (Trim l)")
    case (Some c)
    with assms bt have "c = cmd"
      by (simp add: extract_line_def Let_def split: if_splits)
    with Some show ?thesis
      by (auto simp: command_colon_step_def split: option.splits if_splits)
  next
    case None
    note cc = None
    show ?thesis
    proof (cases "numbered_step (Trim l)")
      case (Some c)
      with assms bt cc have "c = cmd"
        by (simp add: extract_line_def Let_def split: if_splits)
      with Some show ?thesis
        by (auto simp: numbered_step_def Let_def split: if_splits)
    next
      case None
      with assms bt cc have "direct_step (Trim l) = Some cmd"
        by (simp add: extract_line_def Let_def split: if_splits)
      then show ?thesis
        by (auto simp: direct_step_def split: if_splits)
    qed
  qed
qed

subsection \<open>Execution order of the two passes\<close>

text \<open>
  C1. With a frame attached, the calls of \<^verbatim>\<open>processDirectCommand\<close> made by
  \<^verbatim>\<open>ProcessCommandsFromResponse\<close> are the mined commands the first pass admits, in the
  miner's order, followed by the mined commands the second pass admits, in the miner's
  order; so the pass numbers along the calls never decrease: every call of the
  placement pass comes before every call of the connection pass.
\<close>

theorem C1_placements_before_connections:
  "fst (snd (ProcessCommandsFromResponse g (Some fr) aResponse st)) =
     map (Pair 1) (filter first_pass (map Trim (extract_commands aResponse))) @
     map (Pair 2) (filter second_pass (map Trim (extract_commands aResponse)))
   \<and> sorted (map fst (fst (snd (ProcessCommandsFromResponse g (Some fr) aResponse st))))"
  by (simp only: PCFR_calls sorted_tags simp_thms)

theorem C1_witness:
  "fst (snd (ProcessCommandsFromResponse sample_generic (Some sample_frame)
       (''connect U1.1 to R1.1'' @ [CHR 0x0A] @ ''add component Device:R'' @ [CHR 0x0A]
        @ ''add component Device:C'') empty_schematic)) =
     [(1, ''add component Device:R''), (1, ''add component Device:C''),
      (2, ''connect U1.1 to R1.1'')]"
proof -
  have "map (Pair (1::nat)) (filter first_pass (map Trim (extract_commands
          (''connect U1.1 to R1.1'' @ [CHR 0x0A] @ ''add component Device:R'' @ [CHR 0x0A]
           @ ''add component Device:C'')))) @
        map (Pair 2) (filter second_pass (map Trim (extract_commands
          (''connect U1.1 to R1.1'' @ [CHR 0x0A] @ ''add component Device:R'' @ [CHR 0x0A]
           @ ''add component Device:C'')))) =
        [(1, ''add component Device:R''), (1, ''add component Device:C''),
         (2, ''connect U1.1 to R1.1'')]"
    by code_simp
  with C1_placements_before_connections [of sample_generic sample_frame
      "''connect U1.1 to R1.1'' @ [CHR 0x0A] @ ''add component Device:R'' @ [CHR 0x0A]
        @ ''add component Device:C''" empty_schematic]
  show ?thesis by simp
qed

subsection \<open>The pipeline result\<close>

text \<open>
  C9. The result of \<^verbatim>\<open>ProcessCommandsFromResponse\<close> has \<^verbatim>\<open>success = true\<close> exactly
  when at least one command was attempted, that is, when \<^verbatim>\<open>processDirectCommand\<close> was
  called at least once; whether the attempts succeeded plays no part.
\<close>

theorem C9_success_iff_attempted:
  "success (fst (ProcessCommandsFromResponse g m_frame aResponse st)) =
     (fst (snd (ProcessCommandsFromResponse g m_frame aResponse st)) \<noteq> [])"
  by (rule PCFR_success)

text \<open>A run in which the only command attempted fails and the result is a success.\<close>

theorem C9_witness:
  "success (fst (ProcessCommandsFromResponse sample_generic (Some sample_frame)
       ''add component Foo:Bar'' empty_schematic)) \<and>
   fst (snd (ProcessCommandsFromResponse sample_generic (Some sample_frame)
       ''add component Foo:Bar'' empty_schematic)) = [(1, ''add component Foo:Bar'')] \<and>
   \<not> success (fst (processDirectCommand sample_generic (Some sample_frame)
       ''add component Foo:Bar'' empty_schematic))"
proof -
  have c: "fst (snd (ProcessCommandsFromResponse sample_generic (Some sample_frame)
       ''add component Foo:Bar'' empty_schematic)) = [(1, ''add component Foo:Bar'')]"
    by code_simp
  have f: "\<not> success (fst (processDirectCommand sample_generic (Some sample_frame)
       ''add component Foo:Bar'' empty_schematic))"
    by code_simp
  from c f C9_success_iff_attempted [of sample_generic "Some sample_frame"
      "''add component Foo:Bar''" empty_schematic]
  show ?thesis by simp
qed

subsection \<open>The pass split is not a partition\<close>

text \<open>
  C2, as stated, fails: the passes are two independent substring tests, not a partition.
  The mined command \<^verbatim>\<open>place R1\<close> mentions none of the four words and is executed in
  neither pass.
\<close>

theorem C2_counterexample:
  "extract_commands ''place R1'' = [''place R1''] \<and>
   fst (snd (ProcessCommandsFromResponse sample_generic (Some sample_frame) ''place R1''
      empty_schematic)) = []"
  by code_simp

text \<open>
  C2, amended. A mined command that mentions \<^verbatim>\<open>component\<close> or \<^verbatim>\<open>symbol\<close> and
  neither \<^verbatim>\<open>connect\<close> nor \<^verbatim>\<open>wire\<close> is executed exactly once for each of its
  occurrences in the mined list, in the first pass. A mined command that mentions
  \<^verbatim>\<open>connect\<close> or \<^verbatim>\<open>wire\<close> and neither \<^verbatim>\<open>component\<close> nor \<^verbatim>\<open>symbol\<close> is executed
  exactly once for each of its occurrences, in the second pass. A mined command that
  mentions none of the four words is never executed.
\<close>

theorem C2_executed_once_or_never:
  "(first_pass c \<noteq> second_pass c \<longrightarrow>
      count_list (map snd (fst (snd (ProcessCommandsFromResponse g (Some fr) aResponse st)))) c =
      count_list (map Trim (extract_commands aResponse)) c) \<and>
   (first_pass c \<and> \<not> second_pass c \<longrightarrow>
      count_list (fst (snd (ProcessCommandsFromResponse g (Some fr) aResponse st))) (1, c) =
      count_list (map Trim (extract_commands aResponse)) c) \<and>
   (\<not> first_pass c \<and> second_pass c \<longrightarrow>
      count_list (fst (snd (ProcessCommandsFromResponse g (Some fr) aResponse st))) (2, c) =
      count_list (map Trim (extract_commands aResponse)) c) \<and>
   (\<not> first_pass c \<and> \<not> second_pass c \<longrightarrow>
      count_list (map snd (fst (snd (ProcessCommandsFromResponse g (Some fr) aResponse st)))) c = 0)"
  by (auto simp: PCFR_count PCFR_count_pass)

theorem C2_witness:
  "first_pass ''add component Device:R'' \<and> \<not> second_pass ''add component Device:R'' \<and>
   count_list (map snd (fst (snd (ProcessCommandsFromResponse sample_generic (Some sample_frame)
       (''add component Device:R'' @ [CHR 0x0A] @ ''place R1'' @ [CHR 0x0A]
        @ ''connect U1.1 to C1.2'') empty_schematic))))
     ''add component Device:R'' = 1 \<and>
   count_list (fst (snd (ProcessCommandsFromResponse sample_generic (Some sample_frame)
       (''add component Device:R'' @ [CHR 0x0A] @ ''place R1'' @ [CHR 0x0A]
        @ ''connect U1.1 to C1.2'') empty_schematic)))
     (1, ''add component Device:R'') = 1 \<and>
   \<not> first_pass ''connect U1.1 to C1.2'' \<and> second_pass ''connect U1.1 to C1.2'' \<and>
   count_list (fst (snd (ProcessCommandsFromResponse sample_generic (Some sample_frame)
       (''add component Device:R'' @ [CHR 0x0A] @ ''place R1'' @ [CHR 0x0A]
        @ ''connect U1.1 to C1.2'') empty_schematic)))
     (2, ''connect U1.1 to C1.2'') = 1 \<and>
   \<not> first_pass ''place R1'' \<and> \<not> second_pass ''place R1'' \<and>
   count_list (map snd (fst (snd (ProcessCommandsFromResponse sample_generic (Some sample_frame)
       (''add component Device:R'' @ [CHR 0x0A] @ ''place R1'' @ [CHR 0x0A]
        @ ''connect U1.1 to C1.2'') empty_schematic))))
     ''place R1'' = 0"
proof -
  have a: "first_pass ''add component Device:R'' \<and> \<not> second_pass ''add component Device:R''"
    by code_simp
  have b: "\<not> first_pass ''place R1'' \<and> \<not> second_pass ''place R1''"
    by code_simp
  have c: "\<not> first_pass ''connect U1.1 to C1.2'' \<and> second_pass ''connect U1.1 to C1.2''"
    by code_simp
  have m: "count_list (map Trim (extract_commands
             (''add component Device:R'' @ [CHR 0x0A] @ ''place R1'' @ [CHR 0x0A]
              @ ''connect U1.1 to C1.2''))) ''add component Device:R'' = 1"
    by code_simp
  have n: "count_list (map Trim (extract_commands
             (''add component Device:R'' @ [CHR 0x0A] @ ''place R1'' @ [CHR 0x0A]
              @ ''connect U1.1 to C1.2''))) ''connect U1.1 to C1.2'' = 1"
    by code_simp
  from a b c m n
    C2_executed_once_or_never [of "''add component Device:R''" sample_generic sample_frame
      "''add component Device:R'' @ [CHR 0x0A] @ ''place R1'' @ [CHR 0x0A]
        @ ''connect U1.1 to C1.2''" empty_schematic]
    C2_executed_once_or_never [of "''connect U1.1 to C1.2''" sample_generic sample_frame
      "''add component Device:R'' @ [CHR 0x0A] @ ''place R1'' @ [CHR 0x0A]
        @ ''connect U1.1 to C1.2''" empty_schematic]
    C2_executed_once_or_never [of "''place R1''" sample_generic sample_frame
      "''add component Device:R'' @ [CHR 0x0A] @ ''place R1'' @ [CHR 0x0A]
        @ ''connect U1.1 to C1.2''" empty_schematic]
  show ?thesis by simp
qed

text \<open>
  The property above leaves out the commands that pass both tests. The second pass,
  commented "Only process connection commands in second pass", does not exclude them:
  \<^verbatim>\<open>add component Connector:Conn\<close> contains \<^verbatim>\<open>connect\<close>, runs in both passes, and its
  symbol is placed twice.
\<close>

lemma command_of_both_passes_runs_twice:
  "fst (snd (ProcessCommandsFromResponse sample_generic (Some sample_frame)
      ''add component Connector:Conn'' empty_schematic)) =
     [(1, ''add component Connector:Conn''), (2, ''add component Connector:Conn'')] \<and>
   items (snd (snd (ProcessCommandsFromResponse sample_generic (Some sample_frame)
      ''add component Connector:Conn'' empty_schematic))) =
     [Symbol \<lparr>LibNickname = ''Connector'', LibItemName = ''conn''\<rparr> (100000, 100000),
      Symbol \<lparr>LibNickname = ''Connector'', LibItemName = ''conn''\<rparr> (100000, 100000)]"
  by code_simp

subsection \<open>What the miner emits\<close>

text \<open>
  C3, as stated, fails: the step for \<^verbatim>\<open>command:\<close> lines only asks the backtick span to
  be non-empty. The line that labels the backtick span \<^verbatim>\<open>delete R1\<close> with
  \<^verbatim>\<open>Command:\<close> yields the candidate \<^verbatim>\<open>delete R1\<close>, which starts with none of the
  four verbs.
\<close>

theorem C3_counterexample:
  "extract_commands (''Command: '' @ [CHR 0x60] @ ''delete R1'' @ [CHR 0x60]) = [''delete R1'']
   \<and> \<not> starts_with_verb ''delete R1''"
  by code_simp

text \<open>
  C3, amended. Every candidate the miner emits starts, without case, with \<^verbatim>\<open>add\<close>,
  \<^verbatim>\<open>connect\<close>, \<^verbatim>\<open>wire\<close> or \<^verbatim>\<open>place\<close>, or it is a non-empty backtick span that the
  \<^verbatim>\<open>command:\<close> step took from a line of the text; the candidates of the backtick step,
  the numbered-list step and the direct step all start with one of the four verbs.
\<close>

theorem C3_verb_or_command_colon:
  assumes "cmd \<in> set (extract_commands T)"
  shows "starts_with_verb cmd \<or>
         (cmd \<noteq> [] \<and>
          (\<exists>line\<in>set (wxSplit T CHR 0x0A). command_colon_step (Trim line) = Some cmd))"
proof -
  from assms obtain l where l: "l \<in> set (wxSplit T CHR 0x0A)" "extract_line l = Some cmd"
    unfolding extract_commands_def by (blast dest: extract_lines_mem)
  from extract_line_cases[OF l(2)] l(1) show ?thesis by blast
qed

theorem C3_witness:
  "''add component Device:R'' \<in> set (extract_commands
       (''1. add component Device:R'' @ [CHR 0x0A] @ ''Command: '' @ [CHR 0x60] @ ''delete R1'' @ [CHR 0x60]))
   \<and> starts_with_verb ''add component Device:R''
   \<and> ''delete R1'' \<in> set (extract_commands
       (''1. add component Device:R'' @ [CHR 0x0A] @ ''Command: '' @ [CHR 0x60] @ ''delete R1'' @ [CHR 0x60]))
   \<and> (\<exists>line\<in>set (wxSplit
       (''1. add component Device:R'' @ [CHR 0x0A] @ ''Command: '' @ [CHR 0x60] @ ''delete R1'' @ [CHR 0x60])
       CHR 0x0A). command_colon_step (Trim line) = Some ''delete R1'')"
proof -
  have m: "extract_commands
       (''1. add component Device:R'' @ [CHR 0x0A] @ ''Command: '' @ [CHR 0x60] @ ''delete R1'' @ [CHR 0x60])
       = [''add component Device:R'', ''delete R1'']"
    by code_simp
  have v: "starts_with_verb ''add component Device:R''" "\<not> starts_with_verb ''delete R1''"
    by code_simp+
  have d: "''delete R1'' \<in> set (extract_commands
       (''1. add component Device:R'' @ [CHR 0x0A] @ ''Command: '' @ [CHR 0x60] @ ''delete R1'' @ [CHR 0x60]))"
    unfolding m by simp
  have a: "''add component Device:R'' \<in> set (extract_commands
       (''1. add component Device:R'' @ [CHR 0x0A] @ ''Command: '' @ [CHR 0x60] @ ''delete R1'' @ [CHR 0x60]))"
    unfolding m by simp
  from C3_verb_or_command_colon [OF d] v(2)
  have e: "\<exists>line\<in>set (wxSplit
       (''1. add component Device:R'' @ [CHR 0x0A] @ ''Command: '' @ [CHR 0x60] @ ''delete R1'' @ [CHR 0x60])
       CHR 0x0A). command_colon_step (Trim line) = Some ''delete R1''"
    by blast
  from a v(1) d e show ?thesis by blast
qed

subsection \<open>The parsers\<close>

text \<open>A search succeeds at some position of the command; a scan consumes its input from
  the left.\<close>

lemma re_search_Some:
  "re_search m s = Some x \<Longrightarrow> \<exists>t. set t \<subseteq> set s \<and> m t = Some x"
proof (induction s)
  case Nil
  then show ?case by auto
next
  case (Cons c cs)
  show ?case
  proof (cases "m (c # cs)")
    case None
    with Cons.prems have "re_search m cs = Some x" by simp
    from Cons.IH[OF this] show ?thesis by auto
  next
    case (Some y)
    with Cons.prems have "m (c # cs) = Some x" by simp
    then show ?thesis by (intro exI[of _ "c # cs"]) simp
  qed
qed

lemma re_search_None:
  "(\<And>t. set t \<subseteq> set s \<Longrightarrow> m t = None) \<Longrightarrow> re_search m s = None"
  by (cases "re_search m s") (auto dest: re_search_Some)

lemma re_search_here: "m s = Some x \<Longrightarrow> re_search m s = Some x"
  by (cases s) auto

lemma many1_Some:
  "many1 C s = Some (w, r) \<Longrightarrow> w \<noteq> [] \<and> list_all C w \<and> s = w @ r"
  by (auto simp: many1_def list_all_iff split: if_splits dest: set_takeWhileD)

lemma many1_rest: "many1 C s = Some (w, r) \<Longrightarrow> set r \<subseteq> set s"
  by (auto dest: many1_Some)

lemma lit_rest: "lit p s = Some r \<Longrightarrow> set r \<subseteq> set s"
  by (induction p s rule: lit.induct) (auto split: if_splits)

lemma wxTolower_colon: "wxTolower c = CHR '':'' \<Longrightarrow> c = CHR '':''"
  by (simp add: wxTolower_def split: if_splits)

lemma lit_colon: "lit '':'' s = Some r \<Longrightarrow> CHR '':'' \<in> set s"
  by (cases s) (auto split: if_splits dest: wxTolower_colon simp: wxTolower_def)

lemma many1_run:
  assumes "w \<noteq> []" "list_all C w" "r = [] \<or> \<not> C (hd r)"
  shows "many1 C (w @ r) = Some (w, r)"
proof -
  have a: "\<forall>x\<in>set w. C x" using assms(2) by (simp add: list_all_iff)
  have tw: "takeWhile C r = []" and dw: "dropWhile C r = r"
    using assms(3) by (cases r; auto)+
  have "takeWhile C (w @ r) = w" using a tw by (simp add: takeWhile_append2)
  moreover have "dropWhile C (w @ r) = r" using a dw by (simp add: dropWhile_append2)
  ultimately show ?thesis using assms(1) by (simp add: many1_def)
qed

lemma Contains_char: "Contains s [c] = (c \<in> set s)"
  by (induction s) auto

lemma add_component_lib_re_Some:
  assumes "add_component_lib_re t = Some (lib, symName, xs, ys)"
  shows "lib \<noteq> [] \<and> list_all re_word_dash lib \<and> symName \<noteq> [] \<and> list_all re_word_dash symName \<and>
         CHR '':'' \<in> set t"
proof -
  from assms obtain r1 s1 r2 r3 s2 r4 r5 r6 r7 where
    a: "lit ''add'' t = Some r1"
    and b: "many1 re_space r1 = Some (s1, r2)"
    and c: "lit ''component'' r2 = Some r3"
    and d: "many1 re_space r3 = Some (s2, r4)"
    and e: "many1 re_word_dash r4 = Some (lib, r5)"
    and f: "lit '':'' r5 = Some r6"
    and g: "many1 re_word_dash r6 = Some (symName, r7)"
    unfolding add_component_lib_re_def
    by (auto simp only: bind_eq_Some_conv split_paired_Ex prod.case option.inject prod.inject)
  have "CHR '':'' \<in> set r5" using f by (rule lit_colon)
  then have "CHR '':'' \<in> set t"
    using lit_rest[OF a] many1_rest[OF b] lit_rest[OF c] many1_rest[OF d] many1_rest[OF e]
    by blast
  with many1_Some[OF e] many1_Some[OF g] show ?thesis by simp
qed

lemma add_component_bare_re_Some:
  assumes "add_component_bare_re t = Some (name, xs, ys)"
  shows "name \<noteq> [] \<and> list_all re_word name"
proof -
  from assms obtain r1 s1 r2 r3 s2 r4 r5 where
    a: "lit ''add'' t = Some r1"
    and b: "many1 re_space r1 = Some (s1, r2)"
    and c: "lit ''component'' r2 = Some r3"
    and d: "many1 re_space r3 = Some (s2, r4)"
    and e: "many1 re_word r4 = Some (name, r5)"
    unfolding add_component_bare_re_def
    by (auto simp only: bind_eq_Some_conv split_paired_Ex prod.case option.inject prod.inject)
  with many1_Some[OF e] show ?thesis by simp
qed

lemma re_word_not_colon: "re_word c \<Longrightarrow> c \<noteq> CHR '':''"
  by (auto simp: re_word_def)

lemma re_word_dash_not_colon: "re_word_dash c \<Longrightarrow> c \<noteq> CHR '':''"
  by (auto simp: re_word_dash_def re_word_def)

lemma list_all_no_colon: "list_all re_word_dash s \<Longrightarrow> CHR '':'' \<notin> set s"
  by (auto simp: list_all_iff dest: re_word_dash_not_colon)

lemma list_all_word_no_colon: "list_all re_word s \<Longrightarrow> CHR '':'' \<notin> set s"
  by (auto simp: list_all_iff dest: re_word_not_colon)

lemma BeforeFirst_app: "ch \<notin> set a \<Longrightarrow> BeforeFirst (a @ ch # b) ch = a"
  by (induction a) (auto simp: BeforeFirst_def)

lemma AfterFirst_app: "ch \<notin> set a \<Longrightarrow> AfterFirst (a @ ch # b) ch = b"
  by (induction a) (auto simp: AfterFirst_def)

text \<open>What a successful parse of the form lib:symName returns.\<close>

lemma parseAddComponent_colon:
  assumes "parseAddComponent aCommand p = Some (componentName, pos)"
    and "Contains componentName '':''"
  shows "BeforeFirst componentName CHR '':'' \<noteq> [] \<and>
         list_all re_word_dash (BeforeFirst componentName CHR '':'') \<and>
         componentName = BeforeFirst componentName CHR '':'' @ '':'' @
                         AfterFirst componentName CHR '':''"
proof (cases "re_search add_component_lib_re aCommand")
  case None
  with assms(1) obtain xs ys where
    "re_search add_component_bare_re aCommand = Some (componentName, xs, ys)"
    by (auto simp: parseAddComponent_def split: option.splits)
  then obtain t where "add_component_bare_re t = Some (componentName, xs, ys)"
    by (blast dest: re_search_Some)
  then have "list_all re_word componentName" by (simp add: add_component_bare_re_Some)
  then have "CHR '':'' \<notin> set componentName" by (rule list_all_word_no_colon)
  with assms(2) show ?thesis by (simp add: Contains_char)
next
  case (Some m)
  obtain lib symName xs ys where m: "m = (lib, symName, xs, ys)" by (cases m)
  with Some assms(1) have n: "componentName = lib @ '':'' @ symName"
    by (simp add: parseAddComponent_def)
  from Some m obtain t where "add_component_lib_re t = Some (lib, symName, xs, ys)"
    by (blast dest: re_search_Some)
  then have l: "lib \<noteq> []" "list_all re_word_dash lib"
    by (simp_all add: add_component_lib_re_Some)
  then have nc: "CHR '':'' \<notin> set lib" by (simp add: list_all_no_colon)
  have "BeforeFirst componentName CHR '':'' = lib" "AfterFirst componentName CHR '':'' = symName"
    using nc by (simp_all add: n BeforeFirst_app AfterFirst_app)
  with l n show ?thesis by simp
qed

lemma Lower_Nil: "(Lower s = []) = (s = [])"
  by (simp add: Lower_def)

lemma CmpNoCase_eq_nonempty: "CmpNoCase_eq n l \<Longrightarrow> l \<noteq> [] \<Longrightarrow> n \<noteq> []"
  by (auto simp: CmpNoCase_eq_def Lower_def)

lemma CmpNoCase_eq_trans: "CmpNoCase_eq a b \<Longrightarrow> CmpNoCase_eq b c \<Longrightarrow> CmpNoCase_eq a c"
  by (simp add: CmpNoCase_eq_def)

lemma find_row_found:
  "find_row rows l \<noteq> [] \<Longrightarrow>
     Some (find_row rows l) \<in> set rows \<and> CmpNoCase_eq (find_row rows l) l"
  by (induction rows l rule: find_row.induct) auto

lemma find_row_exists:
  "Some n \<in> set rows \<Longrightarrow> CmpNoCase_eq n l \<Longrightarrow> l \<noteq> [] \<Longrightarrow> find_row rows l \<noteq> []"
  by (induction rows l rule: find_row.induct) (auto dest: CmpNoCase_eq_nonempty)

lemma find_row_none:
  "(\<And>n. Some n \<in> set rows \<Longrightarrow> \<not> CmpNoCase_eq n l) \<Longrightarrow> find_row rows l = []"
  by (induction rows l rule: find_row.induct) auto

lemma load_loop_True:
  "load_loop ad rows nick item actual = (True, a) \<Longrightarrow>
     Some a \<in> set rows \<and> CmpNoCase_eq a nick"
  by (induction ad rows nick item actual rule: load_loop.induct) (auto split: if_splits)

lemma executePlaceComponent_cases:
  assumes "executePlaceComponent fr aLibId aPosition st = (ok, st')"
  shows "(\<not> ok \<and> st' = st) \<or>
         (ok \<and> (\<exists>ad a. SymbolLibAdapter fr = Some ad \<and> Some a \<in> set (Rows ad) \<and>
                   CmpNoCase_eq a (LibNickname aLibId) \<and>
                   st' = st\<lparr>items := items st @
                               [Symbol \<lparr>LibNickname = a, LibItemName = LibItemName aLibId\<rparr>
                                  aPosition],
                             commits := commits st @ [''Place Symbol'']\<rparr>))"
proof (cases "is_SCH_EDIT_FRAME fr")
  case False
  with assms show ?thesis by (simp add: executePlaceComponent_def)
next
  case True
  note sch = True
  show ?thesis
  proof (cases "SymbolLibAdapter fr")
    case None
    with assms sch show ?thesis by (simp add: executePlaceComponent_def)
  next
    case (Some ad)
    obtain found a where
      l: "load_loop ad (Rows ad) (LibNickname aLibId) (LibItemName aLibId) [] = (found, a)"
      by (cases "load_loop ad (Rows ad) (LibNickname aLibId) (LibItemName aLibId) []")
    show ?thesis
    proof (cases "found \<and> has_screen fr")
      case False
      with assms sch Some l show ?thesis
        by (cases found) (auto simp: executePlaceComponent_def)
    next
      case True
      then have "found" by simp
      with l have "Some a \<in> set (Rows ad) \<and> CmpNoCase_eq a (LibNickname aLibId)"
        by (simp add: load_loop_True)
      with assms sch Some l True show ?thesis
        by (cases found) (auto simp: executePlaceComponent_def)
    qed
  qed
qed

text \<open>The library id of a command of the form lib:sym whose library has a row.\<close>

lemma resolve_lib_id_row:
  assumes "Contains componentName '':''"
    and "BeforeFirst componentName CHR '':'' \<noteq> []"
    and "SymbolLibAdapter fr = Some ad"
    and "Some nickname \<in> set (RowsAll ad)"
    and "CmpNoCase_eq nickname (BeforeFirst componentName CHR '':'')"
  shows "resolve_lib_id fr componentName =
           Inr \<lparr>LibNickname = find_row (RowsAll ad) (BeforeFirst componentName CHR '':''),
                LibItemName = AfterFirst componentName CHR '':''\<rparr> \<and>
         find_row (RowsAll ad) (BeforeFirst componentName CHR '':'') \<noteq> []"
proof -
  have "find_row (RowsAll ad) (BeforeFirst componentName CHR '':'') \<noteq> []"
    using assms(4,5,2) by (rule find_row_exists)
  then show ?thesis using assms(1,3) by (simp add: resolve_lib_id_def Let_def)
qed

lemma resolve_lib_id_no_row:
  assumes "Contains componentName '':''"
    and "SymbolLibAdapter fr = Some ad"
    and "\<And>n. Some n \<in> set (RowsAll ad) \<Longrightarrow> \<not> CmpNoCase_eq n (BeforeFirst componentName CHR '':'')"
  shows "resolve_lib_id fr componentName =
           Inl (''Library '' @ [CHR 0x27] @ BeforeFirst componentName CHR '':'' @ [CHR 0x27]
                @ '' not found. Available libraries: ''
                @ (if GetLibraryNames (Some ad) = []
                   then ''(none - check Preferences > Manage Symbol Libraries)''
                   else wxJoin (GetLibraryNames (Some ad)) CHR '',''))"
proof -
  have "find_row (RowsAll ad) (BeforeFirst componentName CHR '':'') = []"
    using assms(3) by (rule find_row_none)
  then show ?thesis using assms(1,2) by (simp add: resolve_lib_id_def Let_def)
qed

text \<open>The add-component branch of \<^verbatim>\<open>processSchematicCommand\<close>.\<close>

lemma processSchematicCommand_add:
  assumes "is_SCH_EDIT_FRAME fr"
    and "Contains aCommand ''add''"
    and "Contains aCommand ''component'' \<or> Contains aCommand ''symbol''"
    and "parseAddComponent aCommand (0, 0) = Some (componentName, parsed)"
  shows "processSchematicCommand fr aCommand st =
     (let position = (if \<not> (fst parsed \<noteq> 0 \<or> snd parsed \<noteq> 0) then (100000, 100000) else parsed)
      in case resolve_lib_id fr componentName of
           Inl err \<Rightarrow> (failure err, st)
         | Inr libId \<Rightarrow>
             (case executePlaceComponent fr libId position st of
                (True, st') \<Rightarrow>
                  (succeeded
                     (''Added component '' @ [CHR 0x27] @ componentName @ [CHR 0x27]
                      @ '' at ('' @ show_int (fst position) @ '', ''
                      @ show_int (snd position) @ '')''),
                   st')
              | (False, st') \<Rightarrow>
                  (failure
                     (''Failed to place component '' @ [CHR 0x27] @ componentName
                      @ [CHR 0x27] @ '' (library: '' @ LibNickname libId
                      @ '', symbol: '' @ LibItemName libId @ ''). ''
                      @ ''Check that the library is loaded and the symbol exists.''),
                   st')))"
  using assms
  by (cases "fst parsed = 0 \<and> snd parsed = 0")
     (simp_all add: processSchematicCommand_def Let_def)

lemma word_dash_not_space: "re_word_dash c \<Longrightarrow> \<not> re_space c"
  by (auto simp: re_word_dash_def re_word_def re_space_def)

lemma word_not_space: "re_word c \<Longrightarrow> \<not> re_space c"
  by (auto simp: re_word_def re_space_def)

lemma word_is_word_dash: "re_word c \<Longrightarrow> re_word_dash c"
  by (simp add: re_word_dash_def)

lemma identifier_hd: "is_ident C s \<Longrightarrow> C (hd s)"
  by (cases s) (auto simp: is_ident_def)

lemma split_at_colon:
  "ch \<in> set name \<Longrightarrow> name = BeforeFirst name ch @ ch # AfterFirst name ch"
  by (induction name) (auto simp: BeforeFirst_def AfterFirst_def)

lemma add_component_lib_re_form:
  assumes lib: "is_ident re_word_dash lib"
    and symb: "is_ident re_word_dash symName"
    and tail: "tail = [] \<or> \<not> re_word_dash (hd tail)"
  shows "add_component_lib_re (''add component '' @ lib @ '':'' @ symName @ tail) =
           Some (lib, symName, at_clause tail)"
proof -
  let ?r4 = "lib @ '':'' @ symName @ tail"
  have lne: "lib \<noteq> []" and la: "list_all re_word_dash lib"
    and sne: "symName \<noteq> []" and sa: "list_all re_word_dash symName"
    using lib symb by (simp_all add: is_ident_def)
  have hd4: "\<not> re_space (hd ?r4)"
    using lne identifier_hd[OF lib] by (simp add: word_dash_not_space)
  have s1: "lit ''add'' (''add component '' @ ?r4) = Some ('' component '' @ ?r4)"
    by simp
  have s2: "many1 re_space ('' component '' @ ?r4) = Some ('' '', ''component '' @ ?r4)"
    using many1_run[of "'' ''" re_space "''component '' @ ?r4"] by (simp add: re_space_def)
  have s3: "lit ''component'' (''component '' @ ?r4) = Some ('' '' @ ?r4)"
    by simp
  have s4: "many1 re_space ('' '' @ ?r4) = Some ('' '', ?r4)"
    using hd4 by (intro many1_run) (simp_all add: re_space_def)
  have s5: "many1 re_word_dash ?r4 = Some (lib, '':'' @ symName @ tail)"
    using lne la by (intro many1_run) (simp_all add: re_word_dash_def re_word_def)
  have s6: "lit '':'' ('':'' @ symName @ tail) = Some (symName @ tail)"
    by simp
  have s7: "many1 re_word_dash (symName @ tail) = Some (symName, tail)"
    using sne sa tail by (intro many1_run) simp_all
  show ?thesis
    unfolding add_component_lib_re_def
    by (simp only: s1 s2 s3 s4 s5 s6 s7 Option.bind.simps prod.case)
qed

lemma add_component_bare_re_form:
  assumes name: "is_ident re_word name"
    and tail: "tail = [] \<or> \<not> re_word (hd tail)"
  shows "add_component_bare_re (''add component '' @ name @ tail) =
           Some (name, at_clause tail)"
proof -
  let ?r4 = "name @ tail"
  have nne: "name \<noteq> []" and na: "list_all re_word name"
    using name by (simp_all add: is_ident_def)
  have hd4: "\<not> re_space (hd ?r4)"
    using nne identifier_hd[OF name] by (simp add: word_not_space)
  have s1: "lit ''add'' (''add component '' @ ?r4) = Some ('' component '' @ ?r4)"
    by simp
  have s2: "many1 re_space ('' component '' @ ?r4) = Some ('' '', ''component '' @ ?r4)"
    using many1_run[of "'' ''" re_space "''component '' @ ?r4"] by (simp add: re_space_def)
  have s3: "lit ''component'' (''component '' @ ?r4) = Some ('' '' @ ?r4)"
    by simp
  have s4: "many1 re_space ('' '' @ ?r4) = Some ('' '', ?r4)"
    using hd4 by (intro many1_run) (simp_all add: re_space_def)
  have s5: "many1 re_word ?r4 = Some (name, tail)"
    using nne na tail by (intro many1_run) simp_all
  show ?thesis
    unfolding add_component_bare_re_def
    by (simp only: s1 s2 s3 s4 s5 Option.bind.simps prod.case)
qed

lemma parseAddComponent_lib_form:
  assumes "is_ident re_word_dash lib" "is_ident re_word_dash symName"
    and "tail = [] \<or> \<not> re_word_dash (hd tail)"
  shows "parseAddComponent (''add component '' @ lib @ '':'' @ symName @ tail) p =
           Some (lib @ '':'' @ symName,
                 set_position (fst (at_clause tail)) (snd (at_clause tail)) p)"
proof -
  have "re_search add_component_lib_re (''add component '' @ lib @ '':'' @ symName @ tail) =
          Some (lib, symName, at_clause tail)"
    by (rule re_search_here) (rule add_component_lib_re_form[OF assms])
  then show ?thesis
    by (simp add: parseAddComponent_def case_prod_beta)
qed

lemma parseAddComponent_bare_form:
  assumes name: "is_ident re_word name"
    and tail: "tail = [] \<or> \<not> re_word (hd tail)"
    and nocolon: "CHR '':'' \<notin> set tail"
  shows "parseAddComponent (''add component '' @ name @ tail) p =
           Some (name, set_position (fst (at_clause tail)) (snd (at_clause tail)) p)"
proof -
  have "CHR '':'' \<notin> set name"
    using name by (simp add: is_ident_def list_all_word_no_colon)
  then have nc: "CHR '':'' \<notin> set (''add component '' @ name @ tail)"
    using nocolon by simp
  have none: "re_search add_component_lib_re (''add component '' @ name @ tail) = None"
  proof (rule re_search_None)
    fix t assume t: "set t \<subseteq> set (''add component '' @ name @ tail)"
    show "add_component_lib_re t = None"
    proof (cases "add_component_lib_re t")
      case (Some m)
      obtain a b c d where "m = (a, b, c, d)" by (cases m)
      with Some have "CHR '':'' \<in> set t" by (simp add: add_component_lib_re_Some)
      with t nc show ?thesis by blast
    qed simp
  qed
  have "re_search add_component_bare_re (''add component '' @ name @ tail) =
          Some (name, at_clause tail)"
    by (rule re_search_here) (rule add_component_bare_re_form[OF name tail])
  with none show ?thesis
    by (simp add: parseAddComponent_def case_prod_beta)
qed

lemma at_clause_zero: "at_clause '' at 0,0'' = (''0'', ''0'')"
  by code_simp

lemma at_clause_Nil: "at_clause [] = ([], [])"
  by code_simp

lemma set_position_zero: "set_position ''0'' ''0'' (0, 0) = (0, 0)"
  by code_simp

lemma set_position_Nil: "set_position [] [] p = p"
  by (simp add: set_position_def ToLong_def)

text \<open>Both spellings of the command parse to the position \<open>(0, 0)\<close>.\<close>

lemma parse_at_zero:
  assumes "component_name name"
  shows "parseAddComponent (''add component '' @ name @ '' at 0,0'') (0, 0) = Some (name, (0, 0))"
proof (cases "CHR '':'' \<in> set name")
  case True
  let ?lib = "BeforeFirst name CHR '':''" and ?sym = "AfterFirst name CHR '':''"
  have n: "name = ?lib @ '':'' @ ?sym" using split_at_colon[OF True] by simp
  have i: "is_ident re_word_dash ?lib" "is_ident re_word_dash ?sym"
    using assms True by (simp_all add: component_name_def)
  have "parseAddComponent (''add component '' @ ?lib @ '':'' @ ?sym @ '' at 0,0'') (0, 0) =
          Some (?lib @ '':'' @ ?sym, (0, 0))"
    using parseAddComponent_lib_form[OF i, of "'' at 0,0''" "(0, 0)"]
    by (simp add: at_clause_zero set_position_zero re_word_dash_def re_word_def)
  then show ?thesis using n by (metis append.assoc)
next
  case False
  then have i: "is_ident re_word name" using assms by (simp add: component_name_def)
  show ?thesis
    using parseAddComponent_bare_form[OF i, of "'' at 0,0''" "(0, 0)"]
    by (simp add: at_clause_zero set_position_zero re_word_def)
qed

lemma parse_no_at:
  assumes "component_name name"
  shows "parseAddComponent (''add component '' @ name) (0, 0) = Some (name, (0, 0))"
proof (cases "CHR '':'' \<in> set name")
  case True
  let ?lib = "BeforeFirst name CHR '':''" and ?sym = "AfterFirst name CHR '':''"
  have n: "name = ?lib @ '':'' @ ?sym" using split_at_colon[OF True] by simp
  have i: "is_ident re_word_dash ?lib" "is_ident re_word_dash ?sym"
    using assms True by (simp_all add: component_name_def)
  have "parseAddComponent (''add component '' @ ?lib @ '':'' @ ?sym @ []) (0, 0) =
          Some (?lib @ '':'' @ ?sym, (0, 0))"
    using parseAddComponent_lib_form[OF i, of "[]" "(0, 0)"]
    by (simp add: at_clause_Nil set_position_Nil)
  then show ?thesis using n by (metis append.assoc append_Nil2)
next
  case False
  then have i: "is_ident re_word name" using assms by (simp add: component_name_def)
  show ?thesis
    using parseAddComponent_bare_form[OF i, of "[]" "(0, 0)"]
    by (simp add: at_clause_Nil set_position_Nil)
qed

subsection \<open>Streaming and cancellation\<close>

text \<open>The loop appends the fragments it reads and feeds each of them to the callback.\<close>

lemma stream_loop_fragments:
  "stream_loop ls cb m u = (m @ concat (fragments ls), fold cb (fragments ls) u)"
proof (induction ls cb m u rule: stream_loop.induct)
  case (4 response fin rest cb m u)
  show ?case
  proof (cases response)
    case Missing
    with 4 show ?thesis by (cases fin) auto
  next
    case (WrongType w)
    with 4 show ?thesis by simp
  next
    case (Value chunk)
    with 4 show ?thesis by (cases fin) auto
  qed
qed simp_all

text \<open>
  C5, as stated, fails: the generator client has no cancel token. With the token raised
  after the second of three fragments, the client still reads the third fragment and
  returns a complete response with the whole text; only the panel's callback notices
  the token and stops forwarding fragments to the UI.
\<close>

theorem C5_counterexample:
  "isComplete (fst (ProcessPromptStreaming sample_service True
       (CurlOk sample_stream (Unparsable [])) (Some on_chunk) sample_panel)) \<and>
   AI_RESPONSE.message (fst (ProcessPromptStreaming sample_service True
       (CurlOk sample_stream (Unparsable [])) (Some on_chunk) sample_panel)) =
     ''add component Device:R'' \<and>
   m_cancelRequested (snd (ProcessPromptStreaming sample_service True
       (CurlOk sample_stream (Unparsable [])) (Some on_chunk) sample_panel)) \<and>
   posted (snd (ProcessPromptStreaming sample_service True
       (CurlOk sample_stream (Unparsable [])) (Some on_chunk) sample_panel)) =
     [''add '', ''component '']"
  by code_simp

text \<open>
  C5, amended. \<^verbatim>\<open>ProcessPromptStreaming\<close> takes no cancel token. When the service is
  available, the transfer succeeds and a callback is supplied, the client reads every
  fragment up to the first line whose done flag it reads as true (the flag of a line
  whose response is no string is not read), hands each of them to the callback, and
  returns a successful response whose complete flag is true and whose text is the
  concatenation of all these fragments, whatever the callback does and whenever the
  panel's cancel token is raised.
\<close>

theorem C5_client_reads_whole_stream:
  assumes "IsAvailable svc conn"
  shows "ProcessPromptStreaming svc conn (CurlOk tokens whole) (Some cb) u =
           (\<lparr>AI_RESPONSE.success = True, AI_RESPONSE.message = concat (fragments tokens),
             AI_RESPONSE.error = [], isComplete = True\<rparr>,
            fold cb (fragments tokens) u)"
  using assms
  by (simp add: ProcessPromptStreaming_def makeApiRequest_def stream_loop_fragments
        AI_RESPONSE_default_def)

theorem C5_witness:
  "IsAvailable sample_service True \<and>
   ProcessPromptStreaming sample_service True (CurlOk sample_stream (Unparsable []))
       (Some on_chunk) sample_panel =
     (\<lparr>AI_RESPONSE.success = True, AI_RESPONSE.message = ''add component Device:R'',
       AI_RESPONSE.error = [], isComplete = True\<rparr>,
      \<lparr>cancel_after = Some 2, seen = 3, posted = [''add '', ''component '']\<rparr>)"
proof -
  have a: "IsAvailable sample_service True" by code_simp
  have f: "concat (fragments sample_stream) = ''add component Device:R''" by code_simp
  have p: "fold on_chunk (fragments sample_stream) sample_panel =
             \<lparr>cancel_after = Some 2, seen = 3, posted = [''add '', ''component '']\<rparr>"
    by code_simp
  from C5_client_reads_whole_stream [OF a, of sample_stream "Unparsable []" on_chunk sample_panel]
    a f p
  show ?thesis by simp
qed

subsection \<open>The pin alias\<close>

text \<open>
  C4. \<^verbatim>\<open>executeConnectComponents\<close> strips a leading upper-case \<^verbatim>\<open>P\<close> from the pin
  identifier, and called with \<^verbatim>\<open>P1\<close> it connects \<^verbatim>\<open>U1\<close>, pin number 1, to
  \<^verbatim>\<open>C1\<close>, pin 2. But \<^verbatim>\<open>processDirectCommand\<close> lower-cases the command before it is
  parsed, so the identifier arrives as \<^verbatim>\<open>p1\<close>, never starts with \<^verbatim>\<open>P\<close>, and the
  command \<^verbatim>\<open>connect U1.P1 to C1.2\<close> fails without drawing a wire.
\<close>

theorem C4_pin_alias_lost_by_lower_casing:
  "processDirectCommand sample_generic (Some sample_frame) ''connect U1.P1 to C1.2''
       empty_schematic =
     (failure ''Failed to connect u1.p1 to c1.2'', empty_schematic) \<and>
   executeConnectComponents sample_frame ''U1'' ''P1'' ''C1'' ''2'' empty_schematic =
     (True, \<lparr>items = [Wire (10, 20) (30, 50)], commits = [''Draw Wire''],
              ContentModified = False\<rparr>) \<and>
   pin_alt (Lower ''P1'') = []"
  by code_simp

subsection \<open>Library resolution\<close>

text \<open>
  C6. Take an add-component command that parses to the form lib:sym, in a project whose
  library table has a row that equals the requested library nickname without case. Then
  the library id handed to \<^verbatim>\<open>executePlaceComponent\<close> carries the nickname of a table
  row, character by character, and that nickname equals the requested one without case;
  and the command either leaves the schematic as it is or adds exactly one symbol, whose
  library id again carries the nickname of a table row that equals the requested one
  without case. The requested spelling never reaches a library id.
\<close>

theorem C6_library_id_carries_row_nickname:
  assumes gate: "Contains aCommand ''add''"
      "Contains aCommand ''component'' \<or> Contains aCommand ''symbol''"
    and parse: "parseAddComponent aCommand (0, 0) = Some (componentName, parsed)"
    and form: "Contains componentName '':''"
    and ad: "SymbolLibAdapter fr = Some ad"
    and row: "Some nickname \<in> set (RowsAll ad)"
      "CmpNoCase_eq nickname (BeforeFirst componentName CHR '':'')"
  shows "(\<exists>libId. resolve_lib_id fr componentName = Inr libId \<and>
            Some (LibNickname libId) \<in> set (RowsAll ad) \<and>
            CmpNoCase_eq (LibNickname libId) (BeforeFirst componentName CHR '':'')) \<and>
         (snd (processSchematicCommand fr aCommand st) = st \<or>
          (\<exists>a position. Some a \<in> set (Rows ad) \<and>
             CmpNoCase_eq a (BeforeFirst componentName CHR '':'') \<and>
             snd (processSchematicCommand fr aCommand st) =
               st\<lparr>items := items st @
                     [Symbol \<lparr>LibNickname = a,
                              LibItemName = AfterFirst componentName CHR '':''\<rparr> position],
                   commits := commits st @ [''Place Symbol'']\<rparr>))"
proof -
  let ?lib = "BeforeFirst componentName CHR '':''"
  let ?id = "\<lparr>LibNickname = find_row (RowsAll ad) ?lib,
              LibItemName = AfterFirst componentName CHR '':''\<rparr>"
  have ne: "?lib \<noteq> []" using parseAddComponent_colon[OF parse form] by simp
  have r: "resolve_lib_id fr componentName = Inr ?id"
    and f: "find_row (RowsAll ad) ?lib \<noteq> []"
    using resolve_lib_id_row[OF form ne ad row] by simp_all
  have fr: "Some (find_row (RowsAll ad) ?lib) \<in> set (RowsAll ad)"
    "CmpNoCase_eq (find_row (RowsAll ad) ?lib) ?lib"
    using find_row_found[OF f] by simp_all
  have first: "\<exists>libId. resolve_lib_id fr componentName = Inr libId \<and>
            Some (LibNickname libId) \<in> set (RowsAll ad) \<and>
            CmpNoCase_eq (LibNickname libId) ?lib"
    using r fr by simp
  have second: "snd (processSchematicCommand fr aCommand st) = st \<or>
          (\<exists>a position. Some a \<in> set (Rows ad) \<and> CmpNoCase_eq a ?lib \<and>
             snd (processSchematicCommand fr aCommand st) =
               st\<lparr>items := items st @
                     [Symbol \<lparr>LibNickname = a,
                              LibItemName = AfterFirst componentName CHR '':''\<rparr> position],
                   commits := commits st @ [''Place Symbol'']\<rparr>)"
  proof (cases "is_SCH_EDIT_FRAME fr")
    case False
    then show ?thesis by (simp add: processSchematicCommand_def)
  next
    case True
    let ?pos = "if \<not> (fst parsed \<noteq> 0 \<or> snd parsed \<noteq> 0) then (100000, 100000) else parsed"
    obtain ok st' where e: "executePlaceComponent fr ?id ?pos st = (ok, st')"
      by (cases "executePlaceComponent fr ?id ?pos st")
    have s: "snd (processSchematicCommand fr aCommand st) = st'"
      using processSchematicCommand_add[OF True gate parse, of st] r e
      by (cases ok) (simp_all add: Let_def)
    from executePlaceComponent_cases[OF e] show ?thesis
    proof
      assume "\<not> ok \<and> st' = st"
      with s show ?thesis by simp
    next
      assume "ok \<and> (\<exists>ad' a. SymbolLibAdapter fr = Some ad' \<and> Some a \<in> set (Rows ad') \<and>
                   CmpNoCase_eq a (LibNickname ?id) \<and>
                   st' = st\<lparr>items := items st @
                               [Symbol \<lparr>LibNickname = a, LibItemName = LibItemName ?id\<rparr> ?pos],
                             commits := commits st @ [''Place Symbol'']\<rparr>)"
      then obtain a where a: "Some a \<in> set (Rows ad)"
        "CmpNoCase_eq a (find_row (RowsAll ad) ?lib)"
        "st' = st\<lparr>items := items st @
                   [Symbol \<lparr>LibNickname = a, LibItemName = AfterFirst componentName CHR '':''\<rparr> ?pos],
                 commits := commits st @ [''Place Symbol'']\<rparr>"
        using ad by auto
      have "CmpNoCase_eq a ?lib" using a(2) fr(2) by (rule CmpNoCase_eq_trans)
      with a(1,3) s show ?thesis by blast
    qed
  qed
  from first second show ?thesis by simp
qed

theorem C6_witness:
  "Contains ''add component device:r'' ''add'' \<and>
   Contains ''add component device:r'' ''component'' \<and>
   parseAddComponent ''add component device:r'' (0, 0) = Some (''device:r'', (0, 0)) \<and>
   Contains ''device:r'' '':'' \<and>
   SymbolLibAdapter sample_frame = Some sample_adapter \<and>
   Some ''Device'' \<in> set (RowsAll sample_adapter) \<and>
   CmpNoCase_eq ''Device'' (BeforeFirst ''device:r'' CHR '':'') \<and>
   resolve_lib_id sample_frame ''device:r'' =
     Inr \<lparr>LibNickname = ''Device'', LibItemName = ''r''\<rparr> \<and>
   (\<exists>a position. Some a \<in> set (Rows sample_adapter) \<and>
      CmpNoCase_eq a (BeforeFirst ''device:r'' CHR '':'') \<and>
      snd (processSchematicCommand sample_frame ''add component device:r'' empty_schematic) =
        empty_schematic\<lparr>items := items empty_schematic @
              [Symbol \<lparr>LibNickname = a,
                       LibItemName = AfterFirst ''device:r'' CHR '':''\<rparr> position],
            commits := commits empty_schematic @ [''Place Symbol'']\<rparr>)"
proof -
  have g1: "Contains ''add component device:r'' ''add''" by code_simp
  have g2: "Contains ''add component device:r'' ''component''" by code_simp
  have p: "parseAddComponent ''add component device:r'' (0, 0) = Some (''device:r'', (0, 0))"
    by code_simp
  have f: "Contains ''device:r'' '':''" by code_simp
  have a: "SymbolLibAdapter sample_frame = Some sample_adapter" by (simp add: sample_frame_def)
  have r1: "Some ''Device'' \<in> set (RowsAll sample_adapter)" by (simp add: sample_adapter_def)
  have r2: "CmpNoCase_eq ''Device'' (BeforeFirst ''device:r'' CHR '':'')" by code_simp
  have res: "resolve_lib_id sample_frame ''device:r'' =
               Inr \<lparr>LibNickname = ''Device'', LibItemName = ''r''\<rparr>"
    by code_simp
  have changed: "snd (processSchematicCommand sample_frame ''add component device:r''
                   empty_schematic) \<noteq> empty_schematic"
    by code_simp
  from C6_library_id_carries_row_nickname [OF g1 disjI1[OF g2] p f a r1 r2, of empty_schematic]
    changed
  have "\<exists>a position. Some a \<in> set (Rows sample_adapter) \<and>
      CmpNoCase_eq a (BeforeFirst ''device:r'' CHR '':'') \<and>
      snd (processSchematicCommand sample_frame ''add component device:r'' empty_schematic) =
        empty_schematic\<lparr>items := items empty_schematic @
              [Symbol \<lparr>LibNickname = a,
                       LibItemName = AfterFirst ''device:r'' CHR '':''\<rparr> position],
            commits := commits empty_schematic @ [''Place Symbol'']\<rparr>"
    by blast
  with g1 g2 p f a r1 r2 res show ?thesis by blast
qed

text \<open>
  C7, as stated, fails at three guards of the code. For a project with no symbol library
  the error ends with a hint in place of the (empty) list of nicknames. When the project
  yields no symbol library adapter there is no table to search: the name is used as it
  is and the error is the one of the failed placement. And a frame that is no
  \<^verbatim>\<open>SCH_EDIT_FRAME\<close> is turned away before the command is parsed.
\<close>

theorem C7_counterexample:
  "processSchematicCommand fresh_frame ''add component foo:bar'' empty_schematic =
     (failure ''Library 'foo' not found. Available libraries: (none - check Preferences > Manage Symbol Libraries)'',
      empty_schematic) \<and>
   wxJoin (GetLibraryNames (SymbolLibAdapter fresh_frame)) CHR '','' = [] \<and>
   processSchematicCommand detached_frame ''add component foo:bar'' empty_schematic =
     (failure ''Failed to place component 'foo:bar' (library: foo, symbol: bar). Check that the library is loaded and the symbol exists.'',
      empty_schematic) \<and>
   processSchematicCommand mock_frame ''add component foo:bar'' empty_schematic =
     (failure ''Not in schematic editor'', empty_schematic)"
  by code_simp

text \<open>
  C7, amended. Take an add-component command of the form lib:sym given to
  \<^verbatim>\<open>processSchematicCommand\<close>, in a schematic editor frame whose project has a symbol
  library adapter, and let no row of the library table equal the requested nickname
  without case. Then the command fails, the schematic is unchanged (no symbol placed, no
  commit pushed), and the error is
  \<^verbatim>\<open>Library '<lib>' not found. Available libraries: <list>\<close>, where \<^verbatim>\<open><lib>\<close> is the
  library nickname of that command and \<^verbatim>\<open><list>\<close> is the non-empty nicknames of the
  table joined by \<^verbatim>\<open>wxJoin\<close> with commas when there is at least one, and the hint
  \<^verbatim>\<open>(none - check Preferences > Manage Symbol Libraries)\<close> when there is none.
\<close>

theorem C7_unknown_library_error:
  assumes sch: "is_SCH_EDIT_FRAME fr"
    and gate: "Contains aCommand ''add''"
      "Contains aCommand ''component'' \<or> Contains aCommand ''symbol''"
    and parse: "parseAddComponent aCommand (0, 0) = Some (componentName, parsed)"
    and form: "Contains componentName '':''"
    and ad: "SymbolLibAdapter fr = Some ad"
    and norow: "\<not> (\<exists>n. Some n \<in> set (RowsAll ad) \<and>
                     CmpNoCase_eq n (BeforeFirst componentName CHR '':''))"
  shows "processSchematicCommand fr aCommand st =
           (failure
              (''Library '' @ [CHR 0x27] @ BeforeFirst componentName CHR '':'' @ [CHR 0x27]
               @ '' not found. Available libraries: ''
               @ (if GetLibraryNames (Some ad) = []
                  then ''(none - check Preferences > Manage Symbol Libraries)''
                  else wxJoin (GetLibraryNames (Some ad)) CHR '','')),
            st)"
proof -
  have "resolve_lib_id fr componentName =
           Inl (''Library '' @ [CHR 0x27] @ BeforeFirst componentName CHR '':'' @ [CHR 0x27]
                @ '' not found. Available libraries: ''
                @ (if GetLibraryNames (Some ad) = []
                   then ''(none - check Preferences > Manage Symbol Libraries)''
                   else wxJoin (GetLibraryNames (Some ad)) CHR '',''))"
    using norow by (intro resolve_lib_id_no_row[OF form ad]) blast
  then show ?thesis
    using processSchematicCommand_add[OF sch gate parse, of st] by (simp add: Let_def)
qed

theorem C7_witness:
  "is_SCH_EDIT_FRAME sample_frame \<and>
   Contains ''add component foo:bar'' ''add'' \<and>
   Contains ''add component foo:bar'' ''component'' \<and>
   parseAddComponent ''add component foo:bar'' (0, 0) = Some (''foo:bar'', (0, 0)) \<and>
   Contains ''foo:bar'' '':'' \<and>
   SymbolLibAdapter sample_frame = Some sample_adapter \<and>
   \<not> (\<exists>n. Some n \<in> set (RowsAll sample_adapter) \<and>
          CmpNoCase_eq n (BeforeFirst ''foo:bar'' CHR '':'')) \<and>
   processSchematicCommand sample_frame ''add component foo:bar'' empty_schematic =
     (failure ''Library 'foo' not found. Available libraries: Device,Connector'',
      empty_schematic)"
proof -
  have s: "is_SCH_EDIT_FRAME sample_frame" by (simp add: sample_frame_def)
  have g1: "Contains ''add component foo:bar'' ''add''" by code_simp
  have g2: "Contains ''add component foo:bar'' ''component''" by code_simp
  have p: "parseAddComponent ''add component foo:bar'' (0, 0) = Some (''foo:bar'', (0, 0))"
    by code_simp
  have f: "Contains ''foo:bar'' '':''" by code_simp
  have a: "SymbolLibAdapter sample_frame = Some sample_adapter" by (simp add: sample_frame_def)
  have d: "\<not> CmpNoCase_eq ''Device'' (BeforeFirst ''foo:bar'' CHR '':'')"
    "\<not> CmpNoCase_eq ''Connector'' (BeforeFirst ''foo:bar'' CHR '':'')"
    by code_simp+
  have n: "\<not> (\<exists>n. Some n \<in> set (RowsAll sample_adapter) \<and>
               CmpNoCase_eq n (BeforeFirst ''foo:bar'' CHR '':''))"
    using d by (auto simp: sample_adapter_def)
  have m: "''Library '' @ [CHR 0x27] @ BeforeFirst ''foo:bar'' CHR '':'' @ [CHR 0x27]
             @ '' not found. Available libraries: ''
             @ (if GetLibraryNames (Some sample_adapter) = []
                then ''(none - check Preferences > Manage Symbol Libraries)''
                else wxJoin (GetLibraryNames (Some sample_adapter)) CHR '','') =
           ''Library 'foo' not found. Available libraries: Device,Connector''"
    by code_simp
  have "processSchematicCommand sample_frame ''add component foo:bar'' empty_schematic =
     (failure ''Library 'foo' not found. Available libraries: Device,Connector'',
      empty_schematic)"
    using C7_unknown_library_error [OF s g1 disjI1[OF g2] p f a n, of empty_schematic]
    unfolding m .
  with s g1 g2 p f a n show ?thesis by blast
qed

text \<open>
  The property above is about \<^verbatim>\<open>processSchematicCommand\<close> and the command it is given.
  Its caller \<^verbatim>\<open>processDirectCommand\<close> lower-cases the command first, so for the
  request \<^verbatim>\<open>Foo:Bar\<close> the message names \<^verbatim>\<open>foo\<close>.
\<close>

lemma unknown_library_lower_cased:
  "processDirectCommand sample_generic (Some sample_frame) ''add component Foo:Bar''
       empty_schematic =
     (failure ''Library 'foo' not found. Available libraries: Device,Connector'',
      empty_schematic)"
  by code_simp

subsection \<open>The coordinate 0,0\<close>

text \<open>What the add-component branch does with a parsed position \<open>(0, 0)\<close>.\<close>

lemma place_at_default:
  assumes parse: "parseAddComponent aCommand (0, 0) = Some (componentName, (0, 0))"
    and ok: "success (fst (processSchematicCommand fr aCommand st))"
    and gate: "Contains aCommand ''add''"
      "Contains aCommand ''component'' \<or> Contains aCommand ''symbol''"
  shows "\<exists>libId. snd (processSchematicCommand fr aCommand st) =
           st\<lparr>items := items st @ [Symbol libId (100000, 100000)],
              commits := commits st @ [''Place Symbol'']\<rparr>"
proof (cases "is_SCH_EDIT_FRAME fr")
  case False
  with ok show ?thesis by (simp add: processSchematicCommand_def failure_def)
next
  case True
  note eq = processSchematicCommand_add[OF True gate parse, of st]
  show ?thesis
  proof (cases "resolve_lib_id fr componentName")
    case (Inl err)
    with eq ok show ?thesis by (simp add: failure_def)
  next
    case (Inr libId)
    obtain b st' where e: "executePlaceComponent fr libId (100000, 100000) st = (b, st')"
      by (cases "executePlaceComponent fr libId (100000, 100000) st")
    have b: "b" using eq ok Inr e by (cases b) (simp_all add: failure_def)
    with eq Inr e have s: "snd (processSchematicCommand fr aCommand st) = st'" by simp
    from executePlaceComponent_cases[OF e] b s show ?thesis by blast
  qed
qed

lemma gate_add: "Contains (''add component '' @ rest) ''add''"
  by simp

lemma gate_component: "Contains (''add component '' @ rest) ''component''"
  by simp

text \<open>
  C10. For every component name of the grammar, the command
  \<^verbatim>\<open>add component <name> at 0,0\<close> has the same result and the same effect on the
  schematic as \<^verbatim>\<open>add component <name>\<close>; and when it succeeds, the symbol it adds sits
  at the default position \<open>(100000, 100000)\<close>.
\<close>

theorem C10_zero_coordinate_is_no_coordinate:
  assumes "component_name name"
  shows "processSchematicCommand fr (''add component '' @ name @ '' at 0,0'') st =
           processSchematicCommand fr (''add component '' @ name) st \<and>
         (success (fst (processSchematicCommand fr (''add component '' @ name @ '' at 0,0'') st))
            \<longrightarrow> (\<exists>libId.
                   snd (processSchematicCommand fr (''add component '' @ name @ '' at 0,0'') st) =
                     st\<lparr>items := items st @ [Symbol libId (100000, 100000)],
                        commits := commits st @ [''Place Symbol'']\<rparr>))"
proof -
  let ?with = "''add component '' @ name @ '' at 0,0''" and ?without = "''add component '' @ name"
  have pw: "parseAddComponent ?with (0, 0) = Some (name, (0, 0))"
    using assms by (rule parse_at_zero)
  have po: "parseAddComponent ?without (0, 0) = Some (name, (0, 0))"
    using assms by (rule parse_no_at)
  have same: "processSchematicCommand fr ?with st = processSchematicCommand fr ?without st"
  proof (cases "is_SCH_EDIT_FRAME fr")
    case False
    then show ?thesis by (simp add: processSchematicCommand_def)
  next
    case True
    show ?thesis
      by (simp only: processSchematicCommand_add[OF True gate_add disjI1[OF gate_component] pw]
            processSchematicCommand_add[OF True gate_add disjI1[OF gate_component] po])
  qed
  have "success (fst (processSchematicCommand fr ?with st)) \<longrightarrow>
          (\<exists>libId. snd (processSchematicCommand fr ?with st) =
             st\<lparr>items := items st @ [Symbol libId (100000, 100000)],
                commits := commits st @ [''Place Symbol'']\<rparr>)"
    using place_at_default[OF pw _ gate_add disjI1[OF gate_component]] by blast
  with same show ?thesis by blast
qed

theorem C10_witness:
  "component_name ''device:r'' \<and>
   processSchematicCommand sample_frame (''add component '' @ ''device:r'' @ '' at 0,0'')
       empty_schematic =
     processSchematicCommand sample_frame (''add component '' @ ''device:r'') empty_schematic \<and>
   success (fst (processSchematicCommand sample_frame
       (''add component '' @ ''device:r'' @ '' at 0,0'') empty_schematic)) \<and>
   (\<exists>libId. snd (processSchematicCommand sample_frame
       (''add component '' @ ''device:r'' @ '' at 0,0'') empty_schematic) =
      empty_schematic\<lparr>items := items empty_schematic @ [Symbol libId (100000, 100000)],
         commits := commits empty_schematic @ [''Place Symbol'']\<rparr>)"
proof -
  have c: "component_name ''device:r''" by code_simp
  have s: "success (fst (processSchematicCommand sample_frame
       (''add component '' @ ''device:r'' @ '' at 0,0'') empty_schematic))"
    by code_simp
  from C10_zero_coordinate_is_no_coordinate [OF c, of sample_frame empty_schematic] c s
  show ?thesis by blast
qed

end
